theory Spec2Isabelle
  imports Main
begin

section \<open>JavaScript values and strings\<close>

text \<open>
  The worker receives its form data from \<^verbatim>\<open>request.json()\<close>, so a field may hold any
  JSON value. Strings are lists of 8-bit code units; numbers are modelled as integers,
  since the code under study only tests the truthiness and the type of an input number.
\<close>

datatype jsval =
    JUndefined
  | JNull
  | JBool bool
  | JNum int
  | JStr string
  | JArr "jsval list"
  | JObj "(string \<times> jsval) list"

datatype js_error = TypeError | Error string

text \<open>Truthiness, as \<^verbatim>\<open>!value\<close> and \<^verbatim>\<open>value && ...\<close> read it.\<close>

fun truthy :: "jsval \<Rightarrow> bool" where
  "truthy JUndefined = False"
| "truthy JNull = False"
| "truthy (JBool b) = b"
| "truthy (JNum n) = (n \<noteq> 0)"
| "truthy (JStr s) = (s \<noteq> [])"
| "truthy (JArr xs) = True"
| "truthy (JObj kvs) = True"

text \<open>\<^verbatim>\<open>typeof value === 'string'\<close>\<close>

fun is_string :: "jsval \<Rightarrow> bool" where
  "is_string (JStr s) = True"
| "is_string v = False"

fun nullish :: "jsval \<Rightarrow> bool" where
  "nullish JUndefined = True"
| "nullish JNull = True"
| "nullish v = False"

text \<open>
  Property read \<^verbatim>\<open>data.name\<close> for the field names of the form, on a value that is
  neither \<^verbatim>\<open>undefined\<close> nor \<^verbatim>\<open>null\<close> (where the read raises a TypeError): the last
  binding of the key on an object (as \<^verbatim>\<open>JSON.parse\<close> keeps it), \<^verbatim>\<open>undefined\<close> on
  every other value.
\<close>

fun js_get :: "jsval \<Rightarrow> string \<Rightarrow> jsval" where
  "js_get (JObj kvs) k = (case map_of (rev kvs) k of None \<Rightarrow> JUndefined | Some v \<Rightarrow> v)"
| "js_get v k = JUndefined"

text \<open>White space of \<^verbatim>\<open>String.prototype.trim\<close> and of \<^verbatim>\<open>\s\<close>, in the 8-bit range.\<close>

definition WhiteSpace :: "char \<Rightarrow> bool" where
  "WhiteSpace c \<longleftrightarrow> c \<in> {CHR 0x09, CHR 0x0A, CHR 0x0B, CHR 0x0C, CHR 0x0D, CHR 0x20, CHR 0xA0}"

definition trim :: "string \<Rightarrow> string" where
  "trim s = rev (dropWhile WhiteSpace (rev (dropWhile WhiteSpace s)))"

text \<open>
  A method call \<^verbatim>\<open>value.trim()\<close> on an arbitrary value: only a string has the method,
  every other value raises a TypeError.
\<close>

fun call_trim :: "jsval \<Rightarrow> js_error + string" where
  "call_trim (JStr s) = Inr (trim s)"
| "call_trim v = Inl TypeError"

text \<open>\<^verbatim>\<open>s.replace(/c/g, r)\<close> for a single character \<open>c\<close>.\<close>

definition replaceAll :: "char \<Rightarrow> string \<Rightarrow> string \<Rightarrow> string" where
  "replaceAll c r s = concat (map (\<lambda>x. if x = c then r else [x]) s)"

text \<open>\<^verbatim>\<open>s.includes(k)\<close>\<close>

fun str_includes :: "string \<Rightarrow> string \<Rightarrow> bool" where
  "str_includes [] k = (k = [])"
| "str_includes (c # cs) k = (take (length k) (c # cs) = k \<or> str_includes cs k)"

text \<open>
  Case mapping, on the ASCII letters: a letter outside ASCII is left as it is, where the
  platform would map it.
\<close>

definition charCode :: "char \<Rightarrow> nat" where
  "charCode c = of_char c"

definition lower_char :: "char \<Rightarrow> char" where
  "lower_char c =
     (if 65 \<le> charCode c \<and> charCode c \<le> 90 then char_of (charCode c + 32) else c)"

definition upper_char :: "char \<Rightarrow> char" where
  "upper_char c =
     (if 97 \<le> charCode c \<and> charCode c \<le> 122 then char_of (charCode c - 32) else c)"

definition toLowerCase :: "string \<Rightarrow> string" where
  "toLowerCase s = map lower_char s"

definition toUpperCase :: "string \<Rightarrow> string" where
  "toUpperCase s = map upper_char s"

definition is_digit :: "char \<Rightarrow> bool" where
  "is_digit c \<longleftrightarrow> 48 \<le> charCode c \<and> charCode c \<le> 57"

section \<open>ServerValidator\<close>

text \<open>\<^verbatim>\<open>/^[^\s@]+@[^\s@]+\.[^\s@]+$/\<close>\<close>

definition email_char :: "char \<Rightarrow> bool" where
  "email_char c \<longleftrightarrow> \<not> WhiteSpace c \<and> c \<noteq> CHR ''@''"

definition emailRegex_test :: "string \<Rightarrow> bool" where
  "emailRegex_test s =
     (let local = takeWhile email_char s; rest = dropWhile email_char s
      in local \<noteq> [] \<and>
         (case rest of
            [] \<Rightarrow> False
          | c # domain \<Rightarrow> c = CHR ''@'' \<and> list_all email_char domain \<and>
                       CHR ''.'' \<in> set (butlast (tl domain))))"

definition isValidEmail :: "jsval \<Rightarrow> bool" where
  "isValidEmail email =
     (case email of
        JStr s \<Rightarrow> if \<not> truthy email then False
                  else emailRegex_test (trim s) \<and> length s \<le> 254
      | _ \<Rightarrow> False)"

definition isRequired :: "jsval \<Rightarrow> bool" where
  "isRequired v = (truthy v \<and> (case v of JStr s \<Rightarrow> 0 < length (trim s) | _ \<Rightarrow> False))"

definition hasMinLength :: "jsval \<Rightarrow> nat \<Rightarrow> bool" where
  "hasMinLength v minLength =
     (truthy v \<and> (case v of JStr s \<Rightarrow> minLength \<le> length (trim s) | _ \<Rightarrow> False))"

definition hasMaxLength :: "jsval \<Rightarrow> nat \<Rightarrow> bool" where
  "hasMaxLength v maxLength =
     (\<not> truthy v \<or> (case v of JStr s \<Rightarrow> length (trim s) \<le> maxLength | _ \<Rightarrow> False))"

text \<open>\<^verbatim>\<open>/^[\+]?[\d\s\-\(\)]{7,20}$/\<close>\<close>

definition phone_char :: "char \<Rightarrow> bool" where
  "phone_char c \<longleftrightarrow> is_digit c \<or> WhiteSpace c \<or> c \<in> {CHR ''-'', CHR ''('', CHR '')''}"

definition phoneRegex_test :: "string \<Rightarrow> bool" where
  "phoneRegex_test s =
     (let r = (case s of c # t \<Rightarrow> if c = CHR ''+'' then t else s | [] \<Rightarrow> s)
      in 7 \<le> length r \<and> length r \<le> 20 \<and> list_all phone_char r)"

text \<open>
  \<^verbatim>\<open>isValidPhone\<close> calls \<^verbatim>\<open>phone.trim()\<close> in its first line, before it tests
  \<^verbatim>\<open>typeof phone\<close> in its second.
\<close>

definition isValidPhone :: "jsval \<Rightarrow> js_error + bool" where
  "isValidPhone phone =
     (if \<not> truthy phone then Inr True
      else (case call_trim phone of
              Inl e \<Rightarrow> Inl e
            | Inr t \<Rightarrow>
                if length t = 0 then Inr True
                else if \<not> is_string phone then Inr False
                else Inr (phoneRegex_test t)))"

definition escape_html :: "string \<Rightarrow> string" where
  "escape_html s =
     replaceAll (CHR 0x5C) ''&#x5C;''
       (replaceAll (CHR ''/'') ''&#x2F;''
         (replaceAll (CHR 0x27) ''&#x27;''
           (replaceAll (CHR 0x22) ''&quot;''
             (replaceAll (CHR ''>'') ''&gt;''
               (replaceAll (CHR ''<'') ''&lt;'' s)))))"

definition sanitizeInput :: "jsval \<Rightarrow> string" where
  "sanitizeInput input =
     (case input of
        JStr s \<Rightarrow> if \<not> truthy input then [] else take 10000 (escape_html (trim s))
      | _ \<Rightarrow> [])"

text \<open>
  The result of \<^verbatim>\<open>validateContactForm\<close>. The sanitized data object is built key by
  key, so it is a map from property names to strings.
\<close>

type_synonym sanitized = "string \<rightharpoonup> string"

record validation =
  isValid :: bool
  errors :: "string list"
  data :: sanitized

text \<open>One block of \<^verbatim>\<open>validateContactForm\<close> per field, on the pair of the two locals.\<close>

definition validate_firstName :: "jsval \<Rightarrow> string list \<times> sanitized \<Rightarrow> string list \<times> sanitized" where
  "validate_firstName v st =
     (case st of (errs, sd) \<Rightarrow>
        if \<not> isRequired v then (errs @ [''First name is required''], sd)
        else if \<not> hasMinLength v 2 then
          (errs @ [''First name must be at least 2 characters long''], sd)
        else if \<not> hasMaxLength v 50 then
          (errs @ [''First name must be less than 50 characters''], sd)
        else (errs, sd(''firstName'' \<mapsto> sanitizeInput v)))"

definition validate_lastName :: "jsval \<Rightarrow> string list \<times> sanitized \<Rightarrow> string list \<times> sanitized" where
  "validate_lastName v st =
     (case st of (errs, sd) \<Rightarrow>
        if \<not> isRequired v then (errs @ [''Last name is required''], sd)
        else if \<not> hasMinLength v 2 then
          (errs @ [''Last name must be at least 2 characters long''], sd)
        else if \<not> hasMaxLength v 50 then
          (errs @ [''Last name must be less than 50 characters''], sd)
        else (errs, sd(''lastName'' \<mapsto> sanitizeInput v)))"

definition validate_email :: "jsval \<Rightarrow> string list \<times> sanitized \<Rightarrow> string list \<times> sanitized" where
  "validate_email v st =
     (case st of (errs, sd) \<Rightarrow>
        if \<not> isRequired v then (errs @ [''Email is required''], sd)
        else if \<not> isValidEmail v then (errs @ [''Please enter a valid email address''], sd)
        else (errs, sd(''email'' \<mapsto> toLowerCase (sanitizeInput v))))"

definition validate_phone ::
    "jsval \<Rightarrow> string list \<times> sanitized \<Rightarrow> js_error + string list \<times> sanitized" where
  "validate_phone v st =
     (case st of (errs, sd) \<Rightarrow>
        if \<not> truthy v then Inr (errs, sd(''phone'' \<mapsto> sanitizeInput (JStr [])))
        else (case isValidPhone v of
                Inl e \<Rightarrow> Inl e
              | Inr ok \<Rightarrow>
                  if \<not> ok then Inr (errs @ [''Please enter a valid phone number''], sd)
                  else Inr (errs, sd(''phone'' \<mapsto> sanitizeInput v))))"

definition validate_message :: "jsval \<Rightarrow> string list \<times> sanitized \<Rightarrow> string list \<times> sanitized" where
  "validate_message v st =
     (case st of (errs, sd) \<Rightarrow>
        if \<not> isRequired v then (errs @ [''Message is required''], sd)
        else if \<not> hasMinLength v 10 then
          (errs @ [''Message must be at least 10 characters long''], sd)
        else if \<not> hasMaxLength v 5000 then
          (errs @ [''Message must be less than 5000 characters''], sd)
        else (errs, sd(''message'' \<mapsto> sanitizeInput v)))"

text \<open>
  \<open>now_iso\<close> is the clock's reading \<^verbatim>\<open>new Date().toISOString()\<close> at the call. Reading
  \<^verbatim>\<open>data.firstName\<close> raises a TypeError when \<open>d\<close> is \<^verbatim>\<open>null\<close> or \<^verbatim>\<open>undefined\<close>.
\<close>

definition validateContactForm :: "string \<Rightarrow> jsval \<Rightarrow> js_error + validation" where
  "validateContactForm now_iso d =
     (if nullish d then Inl TypeError
      else
        let s1 = validate_firstName (js_get d ''firstName'') ([], Map.empty);
            s2 = validate_lastName (js_get d ''lastName'') s1;
            s3 = validate_email (js_get d ''email'') s2
        in case validate_phone (js_get d ''phone'') s3 of
             Inl e \<Rightarrow> Inl e
           | Inr s4 \<Rightarrow>
               (case validate_message (js_get d ''message'') s4 of (errs, sd) \<Rightarrow>
                  Inr \<lparr>isValid = (length errs = 0), errors = errs,
                       data = sd(''timestamp'' \<mapsto> now_iso, ''source'' \<mapsto> ''website_contact_form'')\<rparr>))"

section \<open>Numbers and their strings\<close>

text \<open>
  \<^verbatim>\<open>parseInt(s)\<close> with no radix: leading white space, an optional sign, an optional
  \<^verbatim>\<open>0x\<close> prefix, then the longest run of digits; \<open>None\<close> is \<^verbatim>\<open>NaN\<close>. Numbers are
  unbounded integers here, where the platform rounds beyond 2^53.
\<close>

definition digit_value :: "char \<Rightarrow> nat" where
  "digit_value c =
     (if 48 \<le> charCode c \<and> charCode c \<le> 57 then charCode c - 48
      else if 97 \<le> charCode c \<and> charCode c \<le> 102 then charCode c - 87
      else if 65 \<le> charCode c \<and> charCode c \<le> 70 then charCode c - 55
      else 99)"

definition parseInt :: "string \<Rightarrow> int option" where
  "parseInt s =
     (let s1 = dropWhile WhiteSpace s;
          neg = (take 1 s1 = ''-'');
          s2 = (if take 1 s1 = ''-'' \<or> take 1 s1 = ''+'' then drop 1 s1 else s1);
          hex = (take 2 s2 = ''0x'' \<or> take 2 s2 = ''0X'');
          radix = (if hex then 16 else 10);
          s3 = (if hex then drop 2 s2 else s2);
          ds = takeWhile (\<lambda>c. digit_value c < radix) s3;
          n = foldl (\<lambda>a c. a * radix + digit_value c) 0 ds
      in if ds = [] then None else Some (if neg then - int n else int n))"

fun digits :: "nat \<Rightarrow> string" where
  "digits n = (if n < 10 then [char_of (48 + n)] else digits (n div 10) @ [char_of (48 + n mod 10)])"

declare digits.simps [simp del]

text \<open>\<^verbatim>\<open>n.toString()\<close> on an integer or \<^verbatim>\<open>NaN\<close>.\<close>

definition number_toString :: "int option \<Rightarrow> string" where
  "number_toString x =
     (case x of
        None \<Rightarrow> ''NaN''
      | Some n \<Rightarrow> if n < 0 then CHR ''-'' # digits (nat (- n)) else digits (nat n))"

text \<open>\<^verbatim>\<open>Math.ceil(x / 1000)\<close> on an integer \<open>x\<close>.\<close>

definition ceil_div1000 :: "int \<Rightarrow> int" where
  "ceil_div1000 x = - ((- x) div 1000)"

section \<open>The worker's environment\<close>

text \<open>
  A KV namespace: each entry holds its value and the instant (in milliseconds) at which
  it expires. Either operation of the binding may throw.
\<close>

record kv_store =
  entries :: "string \<rightharpoonup> string \<times> nat"
  get_throws :: bool
  put_throws :: bool

definition kv_lookup :: "kv_store \<Rightarrow> nat \<Rightarrow> string \<Rightarrow> string option" where
  "kv_lookup kv t key =
     (case entries kv key of
        None \<Rightarrow> None
      | Some (v, expires) \<Rightarrow> if t < expires then Some v else None)"

definition kv_get :: "kv_store \<Rightarrow> nat \<Rightarrow> string \<Rightarrow> js_error + string option" where
  "kv_get kv t key =
     (if get_throws kv then Inl (Error ''KV get failed'') else Inr (kv_lookup kv t key))"

definition kv_put :: "kv_store \<Rightarrow> nat \<Rightarrow> string \<Rightarrow> string \<Rightarrow> nat \<Rightarrow> js_error + kv_store" where
  "kv_put kv t key v expirationTtl =
     (if put_throws kv then Inl (Error ''KV put failed'')
      else Inr (kv\<lparr>entries := (entries kv)(key \<mapsto> (v, t + expirationTtl * 1000))\<rparr>))"

text \<open>
  The reply of the email provider to one outbound call. Its JSON body is taken to be an
  object, with an optional \<^verbatim>\<open>id\<close> and an optional \<^verbatim>\<open>message\<close>.
\<close>

datatype resend_result = ResendResult (result_id: "string option") (result_message: "string option")

datatype provider_reply = FetchThrows | Reply bool resend_result

record email =
  from_addr :: string
  to_addrs :: "string list"
  reply_to :: "string option"
  subject :: string

datatype event =
    LogSubmission string
  | LogError js_error "string option"
  | EmailCall string email
  | Sleep nat

fun is_EmailCall :: "event \<Rightarrow> bool" where
  "is_EmailCall (EmailCall k e) = True"
| "is_EmailCall ev = False"

fun sleep_ms :: "event \<Rightarrow> nat option" where
  "sleep_ms (Sleep n) = Some n"
| "sleep_ms ev = None"

text \<open>
  The state one request runs in: the clock (\<^verbatim>\<open>Date.now()\<close>, which only
  \<^verbatim>\<open>setTimeout\<close> advances here), the platform's \<^verbatim>\<open>toISOString\<close>, the bindings of
  \<^verbatim>\<open>env\<close>, the provider's reply to its n-th call, and the trace of what the worker did.
\<close>

record world =
  clock :: nat
  Date_toISOString :: "nat \<Rightarrow> string"
  RATE_LIMIT_KV :: "kv_store option"
  RESEND_API_KEY :: "string option"
  provider :: "nat \<Rightarrow> provider_reply"
  trace :: "event list"

record request =
  http_method :: string
  url :: string
  headers_get :: "string \<Rightarrow> string option"
  json_body :: "jsval option"
  form_body :: "(string \<times> string) list option"

text \<open>\<^verbatim>\<open>request.headers.get(name) || fallback\<close>\<close>

definition header_or :: "request \<Rightarrow> string \<Rightarrow> string \<Rightarrow> string" where
  "header_or req name fallback =
     (case headers_get req name of None \<Rightarrow> fallback | Some v \<Rightarrow> if v = [] then fallback else v)"

section \<open>RateLimiter\<close>

record rate_limit_result =
  allowed :: bool
  remaining :: "int option"
  resetTime :: nat

definition maxRequests :: int where
  "maxRequests = 5"

definition rateLimitKey :: "request \<Rightarrow> string" where
  "rateLimitKey req = ''rate_limit:'' @ header_or req ''CF-Connecting-IP'' ''unknown''"

text \<open>The \<^verbatim>\<open>catch\<close> branch of \<^verbatim>\<open>checkRateLimit\<close>.\<close>

definition failOpen :: "world \<Rightarrow> rate_limit_result" where
  "failOpen w = \<lparr>allowed = True, remaining = Some 4, resetTime = clock w + 60 * 60 * 1000\<rparr>"

text \<open>\<^verbatim>\<open>currentCount ? parseInt(currentCount) : 0\<close>; \<open>None\<close> is \<^verbatim>\<open>NaN\<close>.\<close>

definition count_of :: "string option \<Rightarrow> int option" where
  "count_of currentCount =
     (case currentCount of None \<Rightarrow> Some 0 | Some s \<Rightarrow> if s = [] then Some 0 else parseInt s)"

text \<open>\<^verbatim>\<open>count >= maxRequests\<close>, false on \<^verbatim>\<open>NaN\<close>.\<close>

definition limit_reached :: "int option \<Rightarrow> bool" where
  "limit_reached count = (case count of None \<Rightarrow> False | Some n \<Rightarrow> maxRequests \<le> n)"

definition checkRateLimit :: "request \<Rightarrow> world \<Rightarrow> rate_limit_result \<times> world" where
  "checkRateLimit req w =
     (let key = rateLimitKey req in
      case (case RATE_LIMIT_KV w of None \<Rightarrow> Inr None | Some kv \<Rightarrow> kv_get kv (clock w) key) of
        Inl e \<Rightarrow> (failOpen w, w)
      | Inr currentCount \<Rightarrow>
          let count = count_of currentCount
          in if limit_reached count then
               (\<lparr>allowed = False, remaining = Some 0, resetTime = clock w + 60 * 60 * 1000\<rparr>, w)
             else
               (case (case RATE_LIMIT_KV w of
                        None \<Rightarrow> Inr w
                      | Some kv \<Rightarrow>
                          (case kv_put kv (clock w) key
                                  (number_toString (map_option (\<lambda>n. n + 1) count)) 3600 of
                             Inl e \<Rightarrow> Inl e
                           | Inr kv' \<Rightarrow> Inr (w\<lparr>RATE_LIMIT_KV := Some kv'\<rparr>))) of
                  Inl e \<Rightarrow> (failOpen w, w)
                | Inr w' \<Rightarrow>
                    (\<lparr>allowed = True, remaining = map_option (\<lambda>n. maxRequests - n - 1) count,
                      resetTime = clock w' + 60 * 60 * 1000\<rparr>, w')))"

text \<open>\<^verbatim>\<open>(message.match(/https?:\/\//g) || []).length\<close>\<close>

fun linkCount :: "string \<Rightarrow> nat" where
  "linkCount [] = 0"
| "linkCount (c # cs) =
     (if take 7 (c # cs) = ''http://'' then Suc (linkCount (drop 6 cs))
      else if take 8 (c # cs) = ''https://'' then Suc (linkCount (drop 7 cs))
      else linkCount cs)"

text \<open>\<^verbatim>\<open>/(.)\1{10,}/.test(message)\<close>; the dot matches no line terminator.\<close>

fun hasRepeatedChars :: "string \<Rightarrow> bool" where
  "hasRepeatedChars [] = False"
| "hasRepeatedChars (c # cs) =
     ((c \<noteq> CHR 0x0A \<and> c \<noteq> CHR 0x0D \<and> 10 \<le> length cs \<and> list_all (\<lambda>x. x = c) (take 10 cs))
      \<or> hasRepeatedChars cs)"

definition spamKeywords :: "string list" where
  "spamKeywords =
     [''viagra'', ''casino'', ''lottery'', ''winner'', ''congratulations'', ''click here'',
      ''free money'']"

text \<open>
  In the worker, \<^verbatim>\<open>message\<close> is the lower-cased text, and every check, the all-caps
  check too, reads that variable.
\<close>

definition detectSpam :: "sanitized \<Rightarrow> bool" where
  "detectSpam formData =
     (let message = toLowerCase (case formData ''message'' of None \<Rightarrow> [] | Some m \<Rightarrow> m);
          hasSpamKeywords = list_ex (\<lambda>keyword. str_includes message keyword) spamKeywords;
          hasExcessiveLinks = (2 < linkCount message);
          hasRepeated = hasRepeatedChars message;
          hasAllCaps = (20 < length message \<and> message = toUpperCase message)
      in hasSpamKeywords \<or> hasExcessiveLinks \<or> hasRepeated \<or> hasAllCaps)"

section \<open>EmailSender and Logger\<close>

text \<open>A template literal prints a property that is not set as \<^verbatim>\<open>undefined\<close>.\<close>

definition template_field :: "sanitized \<Rightarrow> string \<Rightarrow> string" where
  "template_field formData k = (case formData k of None \<Rightarrow> ''undefined'' | Some v \<Rightarrow> v)"

text \<open>
  The envelope of \<^verbatim>\<open>createEmailContent\<close>. The two bodies (\<^verbatim>\<open>html\<close>, \<^verbatim>\<open>text\<close>) print the
  same fields around a locale-dependent date and are left out of the record.
\<close>

definition createEmailContent :: "sanitized \<Rightarrow> email" where
  "createEmailContent formData =
     \<lparr>from_addr = ''VA by Anna Contact Form <noreply@vabyanna.com>'',
      to_addrs = [''anna@vabyanna.com''],
      reply_to = formData ''email'',
      subject = ''New Contact Form Submission from '' @ template_field formData ''firstName''
                 @ '' '' @ template_field formData ''lastName''\<rparr>"

definition email_calls :: "world \<Rightarrow> nat" where
  "email_calls w = length (filter is_EmailCall (trace w))"

text \<open>
  \<^verbatim>\<open>sendWithResend\<close>: one outbound call, recorded in the trace; it throws when the
  fetch or the decoding of its reply throws (\<open>FetchThrows\<close>) and when the provider's
  status is not a success.
\<close>

definition sendWithResend :: "email \<Rightarrow> string \<Rightarrow> world \<Rightarrow> (js_error + resend_result) \<times> world" where
  "sendWithResend emailData apiKey w =
     (let w1 = w\<lparr>trace := trace w @ [EmailCall apiKey emailData]\<rparr> in
      case provider w (email_calls w) of
        FetchThrows \<Rightarrow> (Inl (Error ''fetch failed''), w1)
      | Reply ok result \<Rightarrow>
          if \<not> ok then
            (Inl (Error (''Resend API error: '' @
                   (case result_message result of
                      None \<Rightarrow> ''Unknown error''
                    | Some m \<Rightarrow> if m = [] then ''Unknown error'' else m))), w1)
          else (Inr result, w1))"

definition sendContactFormEmail ::
    "sanitized \<Rightarrow> string \<Rightarrow> world \<Rightarrow> (js_error + resend_result) \<times> world" where
  "sendContactFormEmail formData apiKey w = sendWithResend (createEmailContent formData) apiKey w"

text \<open>
  The logger prints one entry; its optional write to a KV namespace sits in its own
  \<^verbatim>\<open>try\<close>/\<^verbatim>\<open>catch\<close> and changes nothing the handler reads, so the trace keeps the entry
  only.
\<close>

definition logSubmission :: "string \<Rightarrow> world \<Rightarrow> world" where
  "logSubmission status w = w\<lparr>trace := trace w @ [LogSubmission status]\<rparr>"

definition logError :: "js_error \<Rightarrow> string option \<Rightarrow> world \<Rightarrow> world" where
  "logError err context_type w = w\<lparr>trace := trace w @ [LogError err context_type]\<rparr>"

text \<open>\<^verbatim>\<open>await new Promise(resolve => setTimeout(resolve, ms))\<close>\<close>

definition setTimeout :: "nat \<Rightarrow> world \<Rightarrow> world" where
  "setTimeout ms w = w\<lparr>clock := clock w + ms, trace := trace w @ [Sleep ms]\<rparr>"

section \<open>The handler\<close>

record response =
  status :: nat
  headers :: "(string \<times> string) list"
  body :: jsval

definition json_headers :: "(string \<times> string) list" where
  "json_headers = [(''Content-Type'', ''application/json''), (''Access-Control-Allow-Origin'', ''*'')]"

definition maxRetries :: nat where
  "maxRetries = 2"

text \<open>
  The retry loop. \<open>None\<close> is \<^verbatim>\<open>emailResult\<close> left \<^verbatim>\<open>undefined\<close>, should the loop end
  by its condition.
\<close>

function retry_loop ::
    "sanitized \<Rightarrow> string \<Rightarrow> nat \<Rightarrow> world \<Rightarrow> (js_error + resend_result option) \<times> world" where
  "retry_loop formData apiKey retryCount w =
     (if retryCount \<le> maxRetries then
        (case sendContactFormEmail formData apiKey w of
           (Inr emailResult, w1) \<Rightarrow> (Inr (Some emailResult), w1)
         | (Inl emailError, w1) \<Rightarrow>
             if retryCount + 1 > maxRetries then
               (Inl emailError, logError emailError (Some ''email_send_failed'') w1)
             else
               retry_loop formData apiKey (retryCount + 1)
                 (setTimeout (2 ^ (retryCount + 1) * 1000) w1))
      else (Inr None, w))"
  by pat_completeness auto
termination
  by (relation "measure (\<lambda>(formData, apiKey, retryCount, w). Suc maxRetries - retryCount)") auto

text \<open>The delivery step, from the credential check to the success response.\<close>

definition deliver :: "sanitized \<Rightarrow> world \<Rightarrow> (js_error + response) \<times> world" where
  "deliver formData w =
     (case (case RESEND_API_KEY w of None \<Rightarrow> None | Some k \<Rightarrow> if k = [] then None else Some k) of
        None \<Rightarrow>
          (Inl (Error ''Email service not configured''),
           logError (Error ''Email service not configured'') (Some ''configuration_error'') w)
      | Some apiKey \<Rightarrow>
          (case retry_loop formData apiKey 0 w of
             (Inl e, w1) \<Rightarrow> (Inl e, w1)
           | (Inr None, w1) \<Rightarrow> (Inl TypeError, w1)
           | (Inr (Some emailResult), w1) \<Rightarrow>
               (Inr \<lparr>status = 200, headers = json_headers,
                     body = JObj [(''success'', JBool True),
                                  (''message'', JStr ''Message sent successfully'')]\<rparr>,
                logSubmission ''success'' w1)))"

text \<open>Reading the body by the declared content type; any failure is one error.\<close>

definition parseBody :: "request \<Rightarrow> js_error + jsval" where
  "parseBody req =
     (let contentType = header_or req ''Content-Type'' [] in
      if str_includes contentType ''application/json'' then
        (case json_body req of None \<Rightarrow> Inl (Error ''invalid JSON'') | Some v \<Rightarrow> Inr v)
      else if str_includes contentType ''application/x-www-form-urlencoded'' then
        (case form_body req of
           None \<Rightarrow> Inl (Error ''invalid form data'')
         | Some kvs \<Rightarrow> Inr (JObj (map (\<lambda>(k, v). (k, JStr v)) kvs)))
      else Inl (Error ''Unsupported content type''))"

definition tooLarge :: "request \<Rightarrow> bool" where
  "tooLarge req =
     (case headers_get req ''Content-Length'' of
        None \<Rightarrow> False
      | Some contentLength \<Rightarrow>
          contentLength \<noteq> [] \<and>
          (case parseInt contentLength of None \<Rightarrow> False | Some n \<Rightarrow> 10240 < n))"

definition rateLimitedResponse :: "rate_limit_result \<Rightarrow> world \<Rightarrow> response" where
  "rateLimitedResponse r w =
     \<lparr>status = 429,
      headers = json_headers @
        [(''Retry-After'', number_toString (Some (ceil_div1000 (int (resetTime r) - int (clock w)))))],
      body = JObj [(''success'', JBool False),
                   (''message'', JStr ''Too many requests. Please try again later.''),
                   (''retryAfter'', JNum (ceil_div1000 (int (resetTime r) - int (clock w))))]\<rparr>"

text \<open>The body of the handler's \<^verbatim>\<open>try\<close>: \<open>Inl\<close> is an exception that reaches its \<^verbatim>\<open>catch\<close>.\<close>

definition handle_post :: "request \<Rightarrow> world \<Rightarrow> (js_error + response) \<times> world" where
  "handle_post req w =
     (if tooLarge req then
        (Inr \<lparr>status = 413, headers = json_headers,
              body = JObj [(''success'', JBool False), (''message'', JStr ''Request too large'')]\<rparr>, w)
      else
        case checkRateLimit req w of (rateLimitResult, w1) \<Rightarrow>
          if \<not> allowed rateLimitResult then
            (let w2 = logSubmission ''rate_limited'' w1
             in (Inr (rateLimitedResponse rateLimitResult w2), w2))
          else
            (case parseBody req of
               Inl e \<Rightarrow>
                 (Inr \<lparr>status = 400, headers = json_headers,
                       body = JObj [(''success'', JBool False),
                                    (''message'', JStr ''Invalid request format'')]\<rparr>, w1)
             | Inr formData \<Rightarrow>
                 (case validateContactForm (Date_toISOString w1 (clock w1)) formData of
                    Inl e \<Rightarrow> (Inl e, w1)
                  | Inr v \<Rightarrow>
                      if \<not> isValid v then
                        (Inr \<lparr>status = 400, headers = json_headers,
                              body = JObj [(''success'', JBool False),
                                           (''message'', JStr ''Validation failed''),
                                           (''errors'', JArr (map JStr (errors v)))]\<rparr>,
                         logSubmission ''validation_failed'' w1)
                      else if detectSpam (data v) then
                        (Inr \<lparr>status = 200, headers = json_headers,
                              body = JObj [(''success'', JBool True),
                                           (''message'', JStr ''Message received successfully'')]\<rparr>,
                         logSubmission ''spam_detected'' w1)
                      else deliver (data v) w1)))"

definition fetch :: "request \<Rightarrow> world \<Rightarrow> response \<times> world" where
  "fetch req w =
     (if http_method req = ''OPTIONS'' then
        (\<lparr>status = 200,
          headers = [(''Access-Control-Allow-Origin'', ''*''),
                     (''Access-Control-Allow-Methods'', ''POST, OPTIONS''),
                     (''Access-Control-Allow-Headers'', ''Content-Type''),
                     (''Access-Control-Max-Age'', ''86400'')],
          body = JNull\<rparr>, w)
      else if http_method req \<noteq> ''POST'' \<or> \<not> str_includes (url req) ''/api/contact'' then
        (\<lparr>status = 404, headers = [(''Access-Control-Allow-Origin'', ''*'')],
          body = JStr ''Not Found''\<rparr>, w)
      else
        case handle_post req w of
          (Inr resp, w1) \<Rightarrow> (resp, w1)
        | (Inl err, w1) \<Rightarrow>
            (\<lparr>status = 500, headers = json_headers,
              body = JObj [(''success'', JBool False),
                           (''message'', JStr ''Internal server error. Please try again later.'')]\<rparr>,
             logError err None w1))"

section \<open>The browser's variants\<close>

text \<open>
  \<^verbatim>\<open>FormValidator.sanitizeInput\<close> of the page script: five substitutions, no test of the
  type and no \<^verbatim>\<open>slice\<close>.
\<close>

definition client_escape_html :: "string \<Rightarrow> string" where
  "client_escape_html s =
     replaceAll (CHR ''/'') ''&#x2F;''
       (replaceAll (CHR 0x27) ''&#x27;''
         (replaceAll (CHR 0x22) ''&quot;''
           (replaceAll (CHR ''>'') ''&gt;''
             (replaceAll (CHR ''<'') ''&lt;'' s))))"

definition client_sanitizeInput :: "jsval \<Rightarrow> js_error + string" where
  "client_sanitizeInput input =
     (if \<not> truthy input then Inr []
      else case call_trim input of Inl e \<Rightarrow> Inl e | Inr t \<Rightarrow> Inr (client_escape_html t))"

text \<open>
  The all-caps signal of \<^verbatim>\<open>SpamProtection.detectSpam\<close>, which returns the disjunction of
  its signals: there the check reads the message as typed, not its lower-cased copy.
\<close>

definition client_hasAllCaps :: "string \<Rightarrow> bool" where
  "client_hasAllCaps message = (20 < length message \<and> message = toUpperCase message)"

section \<open>Notions the statements use\<close>

text \<open>
  The inputs on which \<^verbatim>\<open>validateContactForm\<close> raises instead of returning: the data is
  \<^verbatim>\<open>null\<close> or \<^verbatim>\<open>undefined\<close>, or the phone is a truthy value that is not a string.
\<close>

definition throws_on :: "jsval \<Rightarrow> bool" where
  "throws_on d = (nullish d \<or> (truthy (js_get d ''phone'') \<and> \<not> is_string (js_get d ''phone'')))"

text \<open>A field is missing when it is not a string, or is empty after trimming.\<close>

definition missing :: "jsval \<Rightarrow> bool" where
  "missing v = (case v of JStr s \<Rightarrow> trim s = [] | _ \<Rightarrow> True)"

definition required_fields :: "string list" where
  "required_fields = [''firstName'', ''lastName'', ''email'', ''message'']"

definition missing_fields :: "jsval \<Rightarrow> string list" where
  "missing_fields d = filter (\<lambda>f. missing (js_get d f)) required_fields"

definition required_message :: "string \<Rightarrow> string" where
  "required_message f =
     (if f = ''firstName'' then ''First name is required''
      else if f = ''lastName'' then ''Last name is required''
      else if f = ''email'' then ''Email is required''
      else ''Message is required'')"

text \<open>Every message the validator can issue about one required field.\<close>

definition field_messages :: "string \<Rightarrow> string list" where
  "field_messages f =
     (if f = ''firstName'' then
        [''First name is required'', ''First name must be at least 2 characters long'',
         ''First name must be less than 50 characters'']
      else if f = ''lastName'' then
        [''Last name is required'', ''Last name must be at least 2 characters long'',
         ''Last name must be less than 50 characters'']
      else if f = ''email'' then [''Email is required'', ''Please enter a valid email address'']
      else
        [''Message is required'', ''Message must be at least 10 characters long'',
         ''Message must be less than 5000 characters''])"

text \<open>The errors of the five blocks, each run on its own, in the order of the blocks.\<close>

definition form_errors :: "jsval \<Rightarrow> string list" where
  "form_errors d =
     fst (validate_firstName (js_get d ''firstName'') ([], Map.empty)) @
     fst (validate_lastName (js_get d ''lastName'') ([], Map.empty)) @
     fst (validate_email (js_get d ''email'') ([], Map.empty)) @
     (if truthy (js_get d ''phone'') \<and> isValidPhone (js_get d ''phone'') = Inr False
      then [''Please enter a valid phone number''] else []) @
     fst (validate_message (js_get d ''message'') ([], Map.empty))"

text \<open>
  The errors the validation rules call for, field by field and in the order of the fields:
  a required field that is missing gives its "is required" message alone, a field that is
  present gives the message of the first rule it breaks, and the rules of one field are
  judged whatever the other fields did.
\<close>

definition expected_errors :: "jsval \<Rightarrow> string list" where
  "expected_errors d =
     (if missing (js_get d ''firstName'') then [''First name is required'']
      else if \<not> hasMinLength (js_get d ''firstName'') 2 then
        [''First name must be at least 2 characters long'']
      else if \<not> hasMaxLength (js_get d ''firstName'') 50 then
        [''First name must be less than 50 characters'']
      else []) @
     (if missing (js_get d ''lastName'') then [''Last name is required'']
      else if \<not> hasMinLength (js_get d ''lastName'') 2 then
        [''Last name must be at least 2 characters long'']
      else if \<not> hasMaxLength (js_get d ''lastName'') 50 then
        [''Last name must be less than 50 characters'']
      else []) @
     (if missing (js_get d ''email'') then [''Email is required'']
      else if \<not> isValidEmail (js_get d ''email'') then [''Please enter a valid email address'']
      else []) @
     (if truthy (js_get d ''phone'') \<and> isValidPhone (js_get d ''phone'') = Inr False
      then [''Please enter a valid phone number''] else []) @
     (if missing (js_get d ''message'') then [''Message is required'']
      else if \<not> hasMinLength (js_get d ''message'') 10 then
        [''Message must be at least 10 characters long'']
      else if \<not> hasMaxLength (js_get d ''message'') 5000 then
        [''Message must be less than 5000 characters'']
      else [])"

text \<open>
  A request that gets as far as the validator: a POST to the contact path, of an
  acceptable declared size, that the rate limiter allows.
\<close>

definition reaches_validation :: "request \<Rightarrow> world \<Rightarrow> bool" where
  "reaches_validation req w \<longleftrightarrow>
     http_method req = ''POST'' \<and> str_includes (url req) ''/api/contact'' \<and> \<not> tooLarge req \<and>
     allowed (fst (checkRateLimit req w))"

text \<open>The validation result of a request whose body parses and passes validation.\<close>

definition validated :: "request \<Rightarrow> world \<Rightarrow> validation option" where
  "validated req w =
     (case parseBody req of
        Inl e \<Rightarrow> None
      | Inr formData \<Rightarrow>
          (case validateContactForm (Date_toISOString w (clock w)) formData of
             Inl e \<Rightarrow> None
           | Inr v \<Rightarrow> if isValid v then Some v else None))"

definition generic_error_body :: jsval where
  "generic_error_body =
     JObj [(''success'', JBool False),
           (''message'', JStr ''Internal server error. Please try again later.'')]"

text \<open>A reply on which \<^verbatim>\<open>sendWithResend\<close> throws.\<close>

fun reply_fails :: "provider_reply \<Rightarrow> bool" where
  "reply_fails FetchThrows = True"
| "reply_fails (Reply ok result) = (\<not> ok)"

text \<open>The seconds left, at instant \<open>t\<close>, before the stored counter of a key expires.\<close>

definition seconds_until_expiry :: "kv_store \<Rightarrow> nat \<Rightarrow> string \<Rightarrow> int" where
  "seconds_until_expiry kv t key =
     (case entries kv key of None \<Rightarrow> 0 | Some (v, expires) \<Rightarrow> ceil_div1000 (int expires - int t))"

text \<open>Decimal digits, and a number of successive rate-limit checks of one request.\<close>

definition dec_digit :: "char \<Rightarrow> bool" where
  "dec_digit c \<longleftrightarrow> 48 \<le> (of_char c :: nat) \<and> (of_char c :: nat) \<le> 57"

fun repeat_check :: "nat \<Rightarrow> request \<Rightarrow> world \<Rightarrow> world" where
  "repeat_check 0 req w = w"
| "repeat_check (Suc k) req w = snd (checkRateLimit req (repeat_check k req w))"

declare repeat_check.simps [simp del]

text \<open>Upper-case letters.\<close>

definition is_upper :: "char \<Rightarrow> bool" where
  "is_upper c \<longleftrightarrow> 65 \<le> charCode c \<and> charCode c \<le> 90"

subsection \<open>Sample inputs\<close>

definition sample_headers :: "string \<Rightarrow> string option" where
  "sample_headers name =
     (if name = ''Content-Type'' then Some ''application/json''
      else if name = ''CF-Connecting-IP'' then Some ''203.0.113.9''
      else None)"

definition sample_form :: "string \<Rightarrow> jsval" where
  "sample_form msg =
     JObj [(''firstName'', JStr ''Ann''), (''lastName'', JStr ''Lee''),
           (''email'', JStr ''ann@example.com''), (''message'', JStr msg)]"

definition sample_request :: "string \<Rightarrow> request" where
  "sample_request msg =
     \<lparr>http_method = ''POST'', url = ''https://vabyanna.com/api/contact'',
      headers_get = sample_headers, json_body = Some (sample_form msg), form_body = None\<rparr>"

definition sample_world :: "kv_store option \<Rightarrow> string option \<Rightarrow> (nat \<Rightarrow> provider_reply) \<Rightarrow> world" where
  "sample_world kv apiKey replies =
     \<lparr>clock = 1800000, Date_toISOString = (\<lambda>t. ''1970-01-01T00:30:00.000Z''),
      RATE_LIMIT_KV = kv, RESEND_API_KEY = apiKey, provider = replies, trace = []\<rparr>"

text \<open>A counter store whose entry for the sample address holds \<open>v\<close> and expires at one hour.\<close>

definition sample_store :: "string \<Rightarrow> bool \<Rightarrow> bool \<Rightarrow> kv_store" where
  "sample_store v g p =
     \<lparr>entries = [''rate_limit:203.0.113.9'' \<mapsto> (v, 3600000)], get_throws = g, put_throws = p\<rparr>"

section \<open>The validator\<close>

lemma trim_Nil [simp]: "trim [] = []"
  by (simp add: trim_def)

lemma isRequired_missing: "isRequired v \<longleftrightarrow> \<not> missing v"
  by (cases v) (auto simp: isRequired_def missing_def)

lemma fst_validate_firstName:
  "fst (validate_firstName v st) = fst st @ (if missing v then [''First name is required''] else
      if \<not> hasMinLength v 2 then [''First name must be at least 2 characters long''] else
      if \<not> hasMaxLength v 50 then [''First name must be less than 50 characters''] else [])"
  by (cases st) (simp add: validate_firstName_def isRequired_missing)

lemma fst_validate_lastName:
  "fst (validate_lastName v st) = fst st @ (if missing v then [''Last name is required''] else
      if \<not> hasMinLength v 2 then [''Last name must be at least 2 characters long''] else
      if \<not> hasMaxLength v 50 then [''Last name must be less than 50 characters''] else [])"
  by (cases st) (simp add: validate_lastName_def isRequired_missing)

lemma fst_validate_email:
  "fst (validate_email v st) = fst st @ (if missing v then [''Email is required''] else
      if \<not> isValidEmail v then [''Please enter a valid email address''] else [])"
  by (cases st) (simp add: validate_email_def isRequired_missing)

lemma fst_validate_message:
  "fst (validate_message v st) = fst st @ (if missing v then [''Message is required''] else
      if \<not> hasMinLength v 10 then [''Message must be at least 10 characters long''] else
      if \<not> hasMaxLength v 5000 then [''Message must be less than 5000 characters''] else [])"
  by (cases st) (simp add: validate_message_def isRequired_missing)

lemma isValidPhone_string: "isValidPhone (JStr s) = Inr (trim s = [] \<or> phoneRegex_test (trim s))"
  by (auto simp: isValidPhone_def)

lemma isValidPhone_throws: "truthy v \<Longrightarrow> \<not> is_string v \<Longrightarrow> isValidPhone v = Inl TypeError"
  by (cases v) (auto simp: isValidPhone_def)

lemma validate_phone_returns:
  "\<not> (truthy v \<and> \<not> is_string v) \<Longrightarrow>
   \<exists>sd'. validate_phone v st =
     Inr (fst st @ (if truthy v \<and> isValidPhone v = Inr False then [''Please enter a valid phone number''] else []), sd')"
  by (cases v; cases st) (auto simp: validate_phone_def isValidPhone_string)

lemma validate_phone_throws:
  "truthy v \<Longrightarrow> \<not> is_string v \<Longrightarrow> validate_phone v st = Inl TypeError"
  by (cases st) (simp add: validate_phone_def isValidPhone_throws)

lemma validateContactForm_returns:
  assumes "\<not> throws_on d"
  shows "\<exists>sd. validateContactForm ts d =
           Inr \<lparr>isValid = (form_errors d = []), errors = form_errors d,
                data = sd(''timestamp'' \<mapsto> ts, ''source'' \<mapsto> ''website_contact_form'')\<rparr>"
proof -
  let ?s1 = "validate_firstName (js_get d ''firstName'') ([], Map.empty)"
  let ?s2 = "validate_lastName (js_get d ''lastName'') ?s1"
  let ?s3 = "validate_email (js_get d ''email'') ?s2"
  from assms have nn: "\<not> nullish d"
    and ph: "\<not> (truthy (js_get d ''phone'') \<and> \<not> is_string (js_get d ''phone''))"
    by (auto simp: throws_on_def)
  from validate_phone_returns[OF ph, of ?s3] obtain sd4 where
    p: "validate_phone (js_get d ''phone'') ?s3 =
          Inr (fst ?s3 @ (if truthy (js_get d ''phone'') \<and> isValidPhone (js_get d ''phone'') = Inr False
                 then [''Please enter a valid phone number''] else []), sd4)" (is "_ = Inr ?s4")
    by blast
  have e: "fst (validate_message (js_get d ''message'') ?s4) = form_errors d"
    unfolding form_errors_def
    by (simp only: fst_validate_firstName fst_validate_lastName fst_validate_email
          fst_validate_message fst_conv append_Nil append_assoc)
  show ?thesis
    unfolding validateContactForm_def Let_def using nn p e
    by (auto simp: case_prod_beta)
qed

lemma validateContactForm_throws:
  assumes "throws_on d"
  shows "validateContactForm ts d = Inl TypeError"
  using assms unfolding validateContactForm_def Let_def throws_on_def
  by (auto simp: validate_phone_throws)

lemma form_errors_unfold:
  "form_errors d =
     (if missing (js_get d ''firstName'') then [''First name is required''] else
      if \<not> hasMinLength (js_get d ''firstName'') 2 then [''First name must be at least 2 characters long''] else
      if \<not> hasMaxLength (js_get d ''firstName'') 50 then [''First name must be less than 50 characters''] else []) @
     (if missing (js_get d ''lastName'') then [''Last name is required''] else
      if \<not> hasMinLength (js_get d ''lastName'') 2 then [''Last name must be at least 2 characters long''] else
      if \<not> hasMaxLength (js_get d ''lastName'') 50 then [''Last name must be less than 50 characters''] else []) @
     (if missing (js_get d ''email'') then [''Email is required''] else
      if \<not> isValidEmail (js_get d ''email'') then [''Please enter a valid email address''] else []) @
     (if truthy (js_get d ''phone'') \<and> isValidPhone (js_get d ''phone'') = Inr False
      then [''Please enter a valid phone number''] else []) @
     (if missing (js_get d ''message'') then [''Message is required''] else
      if \<not> hasMinLength (js_get d ''message'') 10 then [''Message must be at least 10 characters long''] else
      if \<not> hasMaxLength (js_get d ''message'') 5000 then [''Message must be less than 5000 characters''] else [])"
  unfolding form_errors_def
  by (simp only: fst_validate_firstName fst_validate_lastName fst_validate_email
        fst_validate_message fst_conv append_Nil)

lemma form_errors_required:
  "filter (\<lambda>e. e \<in> set (map required_message required_fields)) (form_errors d) =
   map required_message (missing_fields d)"
  unfolding form_errors_unfold
  by (simp add: required_message_def required_fields_def missing_fields_def)

lemma form_errors_field:
  assumes "f \<in> set (missing_fields d)"
  shows "filter (\<lambda>e. e \<in> set (field_messages f)) (form_errors d) = [required_message f]"
proof -
  from assms have "f \<in> set required_fields" and m: "missing (js_get d f)"
    by (auto simp: missing_fields_def)
  then consider "f = ''firstName''" | "f = ''lastName''" | "f = ''email''" | "f = ''message''"
    by (auto simp: required_fields_def)
  then show ?thesis
  proof cases
    case 1 with m show ?thesis unfolding form_errors_unfold
      by (simp add: required_message_def field_messages_def)
  next
    case 2 with m show ?thesis unfolding form_errors_unfold
      by (simp add: required_message_def field_messages_def)
  next
    case 3 with m show ?thesis unfolding form_errors_unfold
      by (simp add: required_message_def field_messages_def)
  next
    case 4 with m show ?thesis unfolding form_errors_unfold
      by (simp add: required_message_def field_messages_def)
  qed
qed

lemmas validator_eval = validateContactForm_def validate_firstName_def validate_lastName_def
  validate_email_def validate_phone_def validate_message_def isRequired_def hasMinLength_def
  hasMaxLength_def isValidEmail_def isValidPhone_def phoneRegex_test_def phone_char_def
  is_digit_def emailRegex_test_def email_char_def trim_def WhiteSpace_def sanitizeInput_def
  escape_html_def replaceAll_def toLowerCase_def lower_char_def charCode_def

text \<open>
  C6. \<^verbatim>\<open>validateContactForm\<close> is claimed never to throw, a numeric phone included. On a
  form whose phone is the number 5551234567 the call raises a TypeError: no result object
  is returned.
\<close>

theorem validateContactForm_numeric_phone_throws:
  "validateContactForm ts
     (JObj [(''firstName'', JStr ''Ann''), (''lastName'', JStr ''Lee''),
            (''email'', JStr ''ann@example.com''), (''phone'', JNum 5551234567),
            (''message'', JStr ''Hello, I would like to book a call please.'')])
   = Inl TypeError"
  by (simp add: validator_eval)

text \<open>
  On every input on which the validator returns, its errors are exactly those the rules
  call for, all fields judged, and the result is valid exactly when there are none.
\<close>

lemma validateContactForm_collects_all:
  assumes "\<not> throws_on d"
  shows "\<exists>r. validateContactForm ts d = Inr r \<and> errors r = expected_errors d \<and>
           isValid r = (expected_errors d = [])"
proof -
  have "form_errors d = expected_errors d"
    unfolding expected_errors_def by (rule form_errors_unfold)
  with validateContactForm_returns[OF assms, of ts] show ?thesis
    by force
qed

text \<open>
  In particular, when it returns and a required field is missing, the result is invalid;
  the errors about a missing field are its one "is required" message and nothing else;
  and the "is required" messages in the result are those of all the missing fields, in
  the order of the fields.
\<close>

lemma validateContactForm_missing_required:
  assumes "\<not> throws_on d" and "missing_fields d \<noteq> []"
  shows "\<exists>r. validateContactForm ts d = Inr r \<and> \<not> isValid r \<and>
           errors r = expected_errors d \<and>
           (\<forall>f \<in> set (missing_fields d).
              filter (\<lambda>e. e \<in> set (field_messages f)) (errors r) = [required_message f]) \<and>
           filter (\<lambda>e. e \<in> set (map required_message required_fields)) (errors r) =
             map required_message (missing_fields d)"
proof -
  have x: "form_errors d = expected_errors d"
    unfolding expected_errors_def by (rule form_errors_unfold)
  from validateContactForm_returns[OF assms(1), of ts] obtain r where
    r: "validateContactForm ts d = Inr r" and e: "errors r = form_errors d"
    and v: "isValid r = (form_errors d = [])"
    by force
  have ne: "form_errors d \<noteq> []"
    using form_errors_required[of d] assms(2) by auto
  show ?thesis
    using r e v ne x form_errors_required[of d] form_errors_field[of _ d] by auto
qed

lemma validateContactForm_missing_required_example:
  "\<exists>r. validateContactForm ''2026-01-01T00:00:00.000Z''
          (JObj [(''lastName'', JStr ''Lee''), (''email'', JStr ''not an email''),
                 (''message'', JStr ''   '')]) = Inr r \<and>
        \<not> isValid r \<and>
        errors r = [''First name is required'', ''Please enter a valid email address'',
                    ''Message is required'']"
  by (simp add: validator_eval)

text \<open>
  C7. An input with a missing required field is claimed to give \<^verbatim>\<open>isValid = false\<close> with
  one error for each missing field. On the form below all four required fields are
  missing and the phone is the number 5551234567: the validator raises a TypeError and
  returns neither \<^verbatim>\<open>isValid\<close> nor any error, by the defect of C6.
\<close>

theorem validateContactForm_missing_fields_throws:
  "missing_fields (JObj [(''phone'', JNum 5551234567)]) =
     [''firstName'', ''lastName'', ''email'', ''message''] \<and>
   validateContactForm ts (JObj [(''phone'', JNum 5551234567)]) = Inl TypeError"
  by (simp add: missing_fields_def required_fields_def missing_def validator_eval)

text \<open>
  C10. Whenever the validator returns, its data object carries the clock's ISO string
  under \<^verbatim>\<open>timestamp\<close> and the fixed tag under \<^verbatim>\<open>source\<close>, whether or not the
  form is valid.
\<close>

theorem validateContactForm_metadata:
  assumes "\<not> throws_on d"
  shows "\<exists>r. validateContactForm ts d = Inr r \<and> data r ''timestamp'' = Some ts \<and>
           data r ''source'' = Some ''website_contact_form''"
  using validateContactForm_returns[OF assms, of ts] by force

theorem validateContactForm_metadata_witness:
  "\<not> throws_on (JObj []) \<and>
   (\<exists>r. validateContactForm ''2026-01-01T00:00:00.000Z'' (JObj []) = Inr r \<and>
        \<not> isValid r \<and> length (errors r) = 4 \<and>
        data r ''timestamp'' = Some ''2026-01-01T00:00:00.000Z'' \<and>
        data r ''source'' = Some ''website_contact_form'')"
proof -
  have h: "\<not> throws_on (JObj [])"
    by (simp add: throws_on_def)
  from validateContactForm_metadata[OF h, of "''2026-01-01T00:00:00.000Z''"]
  obtain r where r: "validateContactForm ''2026-01-01T00:00:00.000Z'' (JObj []) = Inr r"
    and m: "data r ''timestamp'' = Some ''2026-01-01T00:00:00.000Z''"
           "data r ''source'' = Some ''website_contact_form''"
    by blast
  have "\<exists>r'. validateContactForm ''2026-01-01T00:00:00.000Z'' (JObj []) = Inr r' \<and>
          \<not> isValid r' \<and> length (errors r') = 4"
    by (simp add: validator_eval)
  with r have "\<not> isValid r \<and> length (errors r) = 4"
    by auto
  with h r m show ?thesis by blast
qed

section \<open>Sanitization\<close>

lemma replaceAll_set: "set (replaceAll c r s) \<subseteq> (set s - {c}) \<union> set r"
  by (induction s) (auto simp: replaceAll_def)

lemma escape_html_clean:
  "set (escape_html s) \<inter> {CHR ''<'', CHR ''>'', CHR 0x22, CHR 0x27, CHR ''/'', CHR 0x5C} = {}"
proof -
  let ?s1 = "replaceAll (CHR ''<'') ''&lt;'' s"
  let ?s2 = "replaceAll (CHR ''>'') ''&gt;'' ?s1"
  let ?s3 = "replaceAll (CHR 0x22) ''&quot;'' ?s2"
  let ?s4 = "replaceAll (CHR 0x27) ''&#x27;'' ?s3"
  let ?s5 = "replaceAll (CHR ''/'') ''&#x2F;'' ?s4"
  let ?s6 = "replaceAll (CHR 0x5C) ''&#x5C;'' ?s5"
  have 1: "CHR ''<'' \<notin> set ?s1" using replaceAll_set[of "CHR ''<''" "''&lt;''" s] by auto
  have 2: "set ?s2 \<inter> {CHR ''<'', CHR ''>''} = {}"
    using 1 replaceAll_set[of "CHR ''>''" "''&gt;''" ?s1] by auto
  have 3: "set ?s3 \<inter> {CHR ''<'', CHR ''>'', CHR 0x22} = {}"
    using 2 replaceAll_set[of "CHR 0x22" "''&quot;''" ?s2] by auto
  have 4: "set ?s4 \<inter> {CHR ''<'', CHR ''>'', CHR 0x22, CHR 0x27} = {}"
    using 3 replaceAll_set[of "CHR 0x27" "''&#x27;''" ?s3] by auto
  have 5: "set ?s5 \<inter> {CHR ''<'', CHR ''>'', CHR 0x22, CHR 0x27, CHR ''/''} = {}"
    using 4 replaceAll_set[of "CHR ''/''" "''&#x2F;''" ?s4] by auto
  have 6: "set ?s6 \<inter> {CHR ''<'', CHR ''>'', CHR 0x22, CHR 0x27, CHR ''/'', CHR 0x5C} = {}"
    using 5 replaceAll_set[of "CHR 0x5C" "''&#x5C;''" ?s5] by auto
  show ?thesis unfolding escape_html_def using 6 by simp
qed

lemma client_escape_html_clean:
  "set (client_escape_html s) \<inter> {CHR ''<'', CHR ''>'', CHR 0x22, CHR 0x27, CHR ''/''} = {}"
proof -
  let ?s1 = "replaceAll (CHR ''<'') ''&lt;'' s"
  let ?s2 = "replaceAll (CHR ''>'') ''&gt;'' ?s1"
  let ?s3 = "replaceAll (CHR 0x22) ''&quot;'' ?s2"
  let ?s4 = "replaceAll (CHR 0x27) ''&#x27;'' ?s3"
  let ?s5 = "replaceAll (CHR ''/'') ''&#x2F;'' ?s4"
  have 1: "CHR ''<'' \<notin> set ?s1" using replaceAll_set[of "CHR ''<''" "''&lt;''" s] by auto
  have 2: "set ?s2 \<inter> {CHR ''<'', CHR ''>''} = {}"
    using 1 replaceAll_set[of "CHR ''>''" "''&gt;''" ?s1] by auto
  have 3: "set ?s3 \<inter> {CHR ''<'', CHR ''>'', CHR 0x22} = {}"
    using 2 replaceAll_set[of "CHR 0x22" "''&quot;''" ?s2] by auto
  have 4: "set ?s4 \<inter> {CHR ''<'', CHR ''>'', CHR 0x22, CHR 0x27} = {}"
    using 3 replaceAll_set[of "CHR 0x27" "''&#x27;''" ?s3] by auto
  have 5: "set ?s5 \<inter> {CHR ''<'', CHR ''>'', CHR 0x22, CHR 0x27, CHR ''/''} = {}"
    using 4 replaceAll_set[of "CHR ''/''" "''&#x2F;''" ?s4] by auto
  show ?thesis unfolding client_escape_html_def using 5 by simp
qed

lemma sanitizeInput_string: "sanitizeInput (JStr s) = take 10000 (escape_html (trim s))"
  by (simp add: sanitizeInput_def escape_html_def replaceAll_def)

lemma client_sanitizeInput_string: "client_sanitizeInput (JStr s) = Inr (client_escape_html (trim s))"
  by (simp add: client_sanitizeInput_def client_escape_html_def replaceAll_def)

lemma replaceAll_replicate: "x \<noteq> c \<Longrightarrow> replaceAll c r (replicate n x) = replicate n x"
  by (induction n) (simp_all add: replaceAll_def)

lemma dropWhile_replicate_keep: "\<not> P x \<Longrightarrow> dropWhile P (replicate n x) = replicate n x"
  by (cases n) simp_all

lemma trim_replicate: "\<not> WhiteSpace x \<Longrightarrow> trim (replicate n x) = replicate n x"
  by (simp add: trim_def dropWhile_replicate_keep)

text \<open>
  C8, as amended. On every string the worker's \<^verbatim>\<open>sanitizeInput\<close> returns at most 10000
  characters, none of them \<^verbatim>\<open><\<close>, \<^verbatim>\<open>>\<close>, a double or single quote, a slash or a
  backslash; the page script's \<^verbatim>\<open>sanitizeInput\<close> returns a string with none of the first
  five, and promises no length.
\<close>

theorem sanitizeInput_escapes:
  "length (sanitizeInput (JStr s)) \<le> 10000 \<and>
   set (sanitizeInput (JStr s)) \<inter>
     {CHR ''<'', CHR ''>'', CHR 0x22, CHR 0x27, CHR ''/'', CHR 0x5C} = {} \<and>
   (\<exists>t. client_sanitizeInput (JStr s) = Inr t \<and>
        set t \<inter> {CHR ''<'', CHR ''>'', CHR 0x22, CHR 0x27, CHR ''/''} = {})"
proof -
  have "set (take 10000 (escape_html (trim s))) \<subseteq> set (escape_html (trim s))"
    by (rule set_take_subset)
  with escape_html_clean[of "trim s"]
  have "set (sanitizeInput (JStr s)) \<inter>
     {CHR ''<'', CHR ''>'', CHR 0x22, CHR 0x27, CHR ''/'', CHR 0x5C} = {}"
    unfolding sanitizeInput_string by blast
  moreover have "length (sanitizeInput (JStr s)) \<le> 10000"
    by (simp add: sanitizeInput_string)
  ultimately show ?thesis
    using client_escape_html_clean[of "trim s"] by (simp add: client_sanitizeInput_string)
qed

theorem sanitizeInput_escapes_witness:
  "sanitizeInput (JStr ''<script>'') = ''&lt;script&gt;'' \<and>
   length (sanitizeInput (JStr ''<script>'')) \<le> 10000 \<and>
   set (sanitizeInput (JStr ''<script>'')) \<inter>
     {CHR ''<'', CHR ''>'', CHR 0x22, CHR 0x27, CHR ''/'', CHR 0x5C} = {} \<and>
   client_sanitizeInput (JStr ''<script>'') = Inr ''&lt;script&gt;''"
  using sanitizeInput_escapes[of "''<script>''"]
  by (simp add: sanitizeInput_def client_sanitizeInput_def client_escape_html_def escape_html_def
        replaceAll_def trim_def WhiteSpace_def)

text \<open>
  C8 as stated fails for the page script's variant, which has no \<^verbatim>\<open>slice\<close>: 10001
  letters come back as 10001 letters.
\<close>

theorem client_sanitizeInput_unbounded:
  "client_sanitizeInput (JStr (replicate 10001 (CHR ''a''))) = Inr (replicate 10001 (CHR ''a'')) \<and>
   \<not> length (replicate 10001 (CHR ''a'')) \<le> 10000"
  by (simp add: client_sanitizeInput_string client_escape_html_def replaceAll_replicate
        trim_replicate WhiteSpace_def)

section \<open>The spam heuristic\<close>

lemmas char_eval = charCode_def char_of_eq_iff take_bit_eq_mod

lemma lower_upper_differs:
  assumes "is_upper c"
  shows "upper_char (lower_char c) \<noteq> lower_char c"
proof -
  from assms have r: "65 \<le> (of_char c :: nat)" "(of_char c :: nat) \<le> 90"
    by (simp_all add: is_upper_def charCode_def)
  then have l: "(of_char (lower_char c) :: nat) = of_char c + 32"
    by (simp add: lower_char_def charCode_def)
  then have u: "(of_char (upper_char (lower_char c)) :: nat) = of_char c"
    using r by (simp add: upper_char_def charCode_def)
  show ?thesis
  proof
    assume "upper_char (lower_char c) = lower_char c"
    then have "(of_char (upper_char (lower_char c)) :: nat) = of_char (lower_char c)" by simp
    with l u show False by simp
  qed
qed

lemma upper_char_fixes_upper: "is_upper c \<Longrightarrow> upper_char c = c"
  by (simp add: is_upper_def upper_char_def)

text \<open>
  On a message of upper-case letters the worker's all-caps test compares the lower-cased
  text with its own upper-casing, and the two always differ.
\<close>

lemma server_allCaps_signal_dead:
  assumes "list_all is_upper m" and "m \<noteq> []"
  shows "toLowerCase m \<noteq> toUpperCase (toLowerCase m)"
proof -
  from assms obtain c cs where m: "m = c # cs" and c: "is_upper c"
    by (cases m) auto
  from lower_upper_differs[OF c] show ?thesis
    by (auto simp: m toLowerCase_def toUpperCase_def)
qed

text \<open>The page script's test holds on every such message of more than 20 letters.\<close>

lemma client_hasAllCaps_upper:
  assumes "list_all is_upper m" and "20 < length m"
  shows "client_hasAllCaps m"
proof -
  from assms(1) have "map upper_char m = m"
    by (induction m) (simp_all add: upper_char_fixes_upper)
  with assms(2) show ?thesis
    by (simp add: client_hasAllCaps_def toUpperCase_def)
qed

text \<open>
  C3. A message of more than 20 upper-case letters is claimed to be classified as spam.
  On the 25 upper-case letters below the worker's \<^verbatim>\<open>detectSpam\<close> returns false, while
  the all-caps signal of the page script's \<^verbatim>\<open>detectSpam\<close> holds.
\<close>

theorem detectSpam_misses_all_caps:
  "length ''PLEASECALLMEBACKTODAYANNA'' = 25 \<and>
   list_all is_upper ''PLEASECALLMEBACKTODAYANNA'' \<and>
   detectSpam [''message'' \<mapsto> ''PLEASECALLMEBACKTODAYANNA''] = False \<and>
   client_hasAllCaps ''PLEASECALLMEBACKTODAYANNA''"
proof -
  have low: "toLowerCase ''PLEASECALLMEBACKTODAYANNA'' = ''pleasecallmebacktodayanna''"
    by (simp add: toLowerCase_def lower_char_def char_eval)
  have up: "toUpperCase ''pleasecallmebacktodayanna'' = ''PLEASECALLMEBACKTODAYANNA''"
    by (simp add: toUpperCase_def upper_char_def char_eval)
  have up': "toUpperCase ''PLEASECALLMEBACKTODAYANNA'' = ''PLEASECALLMEBACKTODAYANNA''"
    by (simp add: toUpperCase_def upper_char_def char_eval)
  have srv: "detectSpam [''message'' \<mapsto> ''PLEASECALLMEBACKTODAYANNA''] = False"
    by (simp add: detectSpam_def low up spamKeywords_def)
  have cl: "client_hasAllCaps ''PLEASECALLMEBACKTODAYANNA''"
    by (simp add: client_hasAllCaps_def up')
  have u: "list_all is_upper ''PLEASECALLMEBACKTODAYANNA''"
    by (simp add: is_upper_def charCode_def)
  from srv cl u show ?thesis by simp
qed

section \<open>The rate limiter\<close>

lemma checkRateLimit_frame:
  "trace (snd (checkRateLimit req w)) = trace w \<and>
   clock (snd (checkRateLimit req w)) = clock w \<and>
   RESEND_API_KEY (snd (checkRateLimit req w)) = RESEND_API_KEY w \<and>
   provider (snd (checkRateLimit req w)) = provider w \<and>
   Date_toISOString (snd (checkRateLimit req w)) = Date_toISOString w"
  by (auto simp: checkRateLimit_def Let_def kv_put_def split: option.splits sum.splits)


lemma parseInt_Some_nonempty: "parseInt s = Some n \<Longrightarrow> s \<noteq> []"
  by (auto simp: parseInt_def Let_def)

lemma digits_3600: "digits 3600 = ''3600''"
  by (simp add: digits.simps char_of_eq_iff take_bit_eq_mod)

lemma checkRateLimit_blocked:
  assumes "RATE_LIMIT_KV w = Some kv" and "\<not> get_throws kv"
    and "kv_lookup kv (clock w) (rateLimitKey req) = Some s"
    and "parseInt s = Some n" and "5 \<le> n"
  shows "checkRateLimit req w =
           (\<lparr>allowed = False, remaining = Some 0, resetTime = clock w + 3600000\<rparr>, w)"
  using assms parseInt_Some_nonempty[OF assms(4)]
  by (simp add: checkRateLimit_def Let_def kv_get_def count_of_def limit_reached_def maxRequests_def)

section \<open>The handler\<close>

declare retry_loop.simps [simp del]

lemma email_calls_simps [simp]:
  "email_calls (w\<lparr>trace := trace w @ [EmailCall k e]\<rparr>) = Suc (email_calls w)"
  "email_calls (setTimeout ms w) = email_calls w"
  "email_calls (logSubmission st w) = email_calls w"
  "email_calls (logError err c w) = email_calls w"
  by (simp_all add: email_calls_def setTimeout_def logSubmission_def logError_def)

lemma send_fails:
  assumes "reply_fails (provider w (email_calls w))"
  shows "\<exists>err. sendContactFormEmail formData apiKey w =
           (Inl err, w\<lparr>trace := trace w @ [EmailCall apiKey (createEmailContent formData)]\<rparr>)"
  using assms
  by (cases "provider w (email_calls w)")
     (auto simp: sendContactFormEmail_def sendWithResend_def Let_def)

lemma send_succeeds:
  assumes "provider w (email_calls w) = Reply True result"
  shows "sendContactFormEmail formData apiKey w =
           (Inr result, w\<lparr>trace := trace w @ [EmailCall apiKey (createEmailContent formData)]\<rparr>)"
  using assms by (simp add: sendContactFormEmail_def sendWithResend_def Let_def)

lemma retry_loop_all_fail:
  assumes f0: "reply_fails (provider w (email_calls w))"
    and f1: "reply_fails (provider w (email_calls w + 1))"
    and f2: "reply_fails (provider w (email_calls w + 2))"
  shows "\<exists>err. retry_loop formData apiKey 0 w =
           (Inl err,
            w\<lparr>clock := clock w + 6000,
              trace := trace w @
                [EmailCall apiKey (createEmailContent formData), Sleep 2000,
                 EmailCall apiKey (createEmailContent formData), Sleep 4000,
                 EmailCall apiKey (createEmailContent formData),
                 LogError err (Some ''email_send_failed'')]\<rparr>)"
proof -
  let ?e = "EmailCall apiKey (createEmailContent formData)"
  let ?w1 = "w\<lparr>trace := trace w @ [?e]\<rparr>"
  let ?w2 = "setTimeout 2000 ?w1"
  let ?w3 = "?w2\<lparr>trace := trace ?w2 @ [?e]\<rparr>"
  let ?w4 = "setTimeout 4000 ?w3"
  let ?w5 = "?w4\<lparr>trace := trace ?w4 @ [?e]\<rparr>"
  from send_fails[OF f0, of formData apiKey] obtain e0 where
    s0: "sendContactFormEmail formData apiKey w = (Inl e0, ?w1)" by blast
  have "reply_fails (provider ?w2 (email_calls ?w2))"
    using f1 by (simp add: setTimeout_def email_calls_def)
  from send_fails[OF this, of formData apiKey] obtain e1 where
    s1: "sendContactFormEmail formData apiKey ?w2 = (Inl e1, ?w3)" by blast
  have "reply_fails (provider ?w4 (email_calls ?w4))"
    using f2 by (simp add: setTimeout_def email_calls_def)
  from send_fails[OF this, of formData apiKey] obtain e2 where
    s2: "sendContactFormEmail formData apiKey ?w4 = (Inl e2, ?w5)" by blast
  have r2: "retry_loop formData apiKey (Suc (Suc 0)) ?w4 = (Inl e2, logError e2 (Some ''email_send_failed'') ?w5)"
    by (subst retry_loop.simps) (simp add: s2 maxRetries_def)
  have r1: "retry_loop formData apiKey (Suc 0) ?w2 = (Inl e2, logError e2 (Some ''email_send_failed'') ?w5)"
    by (subst retry_loop.simps) (simp add: s1 maxRetries_def r2)
  have r0: "retry_loop formData apiKey 0 w = (Inl e2, logError e2 (Some ''email_send_failed'') ?w5)"
    by (subst retry_loop.simps) (simp add: s0 maxRetries_def r1)
  show ?thesis
    unfolding r0 by (rule exI[of _ e2]) (simp add: logError_def setTimeout_def)
qed

lemma handle_post_validated:
  assumes "reaches_validation req w" and "validated req w = Some v"
  shows "handle_post req w =
           (let w1 = snd (checkRateLimit req w) in
            if detectSpam (data v) then
              (Inr \<lparr>status = 200, headers = json_headers,
                    body = JObj [(''success'', JBool True),
                                 (''message'', JStr ''Message received successfully'')]\<rparr>,
               logSubmission ''spam_detected'' w1)
            else deliver (data v) w1)"
proof -
  obtain rl w1 where c: "checkRateLimit req w = (rl, w1)"
    by (cases "checkRateLimit req w")
  from checkRateLimit_frame[of req w] c
  have fr: "Date_toISOString w1 = Date_toISOString w" "clock w1 = clock w"
    by simp_all
  from assms(1) c have a: "\<not> tooLarge req" "allowed rl"
    by (simp_all add: reaches_validation_def)
  from assms(2) obtain formData where
    p: "parseBody req = Inr formData"
    and v: "validateContactForm (Date_toISOString w (clock w)) formData = Inr v"
    and ok: "isValid v"
    by (auto simp: validated_def split: sum.splits if_splits)
  show ?thesis
    by (simp add: handle_post_def c a p v ok fr)
qed

lemma fetch_post:
  assumes "reaches_validation req w"
  shows "fetch req w =
           (case handle_post req w of
              (Inr resp, w1) \<Rightarrow> (resp, w1)
            | (Inl err, w1) \<Rightarrow>
                (\<lparr>status = 500, headers = json_headers, body = generic_error_body\<rparr>,
                 logError err None w1))"
  using assms unfolding generic_error_body_def by (auto simp: fetch_def reaches_validation_def)




lemma fetch_blocked:
  assumes "RATE_LIMIT_KV w = Some kv" and "\<not> get_throws kv"
    and "kv_lookup kv (clock w) (rateLimitKey req) = Some s"
    and "parseInt s = Some n" and "5 \<le> n"
    and "http_method req = ''POST''" and "str_includes (url req) ''/api/contact''"
    and "\<not> tooLarge req"
  shows "fetch req w =
           (\<lparr>status = 429, headers = json_headers @ [(''Retry-After'', ''3600'')],
             body = JObj [(''success'', JBool False),
                          (''message'', JStr ''Too many requests. Please try again later.''),
                          (''retryAfter'', JNum 3600)]\<rparr>,
            logSubmission ''rate_limited'' w)"
  using assms(6-8)
  by (simp add: fetch_def handle_post_def checkRateLimit_blocked[OF assms(1-5)] Let_def
        rateLimitedResponse_def logSubmission_def ceil_div1000_def number_toString_def digits_3600)

section \<open>The handler on sample requests\<close>

lemmas sample_eval = sample_request_def sample_world_def sample_headers_def sample_form_def
  sample_store_def

lemma sample_request_basics:
  "http_method (sample_request msg) = ''POST''"
  "str_includes (url (sample_request msg)) ''/api/contact''"
  "\<not> tooLarge (sample_request msg)"
  "rateLimitKey (sample_request msg) = ''rate_limit:203.0.113.9''"
  by (simp_all add: sample_eval tooLarge_def rateLimitKey_def header_or_def)

lemma checkRateLimit_unbound:
  assumes "RATE_LIMIT_KV w = None"
  shows "checkRateLimit req w =
           (\<lparr>allowed = True, remaining = Some 4, resetTime = clock w + 3600000\<rparr>, w)"
  using assms
  by (simp add: checkRateLimit_def Let_def count_of_def limit_reached_def maxRequests_def)

lemma sample_reaches: "reaches_validation (sample_request msg) (sample_world None k r)"
  by (simp add: reaches_validation_def sample_request_basics checkRateLimit_unbound
        sample_world_def)

lemma sample_parse: "parseBody (sample_request msg) = Inr (sample_form msg)"
  by (simp add: parseBody_def sample_eval header_or_def)

lemma sample_validated_spam:
  "\<exists>v. validated (sample_request ''Claim your FREE MONEY now'') (sample_world kv k r) = Some v \<and>
        data v ''message'' = Some ''Claim your FREE MONEY now''"
  by (simp add: validated_def sample_parse) (simp add: sample_form_def validator_eval)

lemma sample_validated_plain:
  "\<exists>v. validated (sample_request ''Hello, I would like to book a call please.'')
          (sample_world kv k r) = Some v \<and>
        data v ''message'' = Some ''Hello, I would like to book a call please.'' \<and>
        createEmailContent (data v) =
          \<lparr>from_addr = ''VA by Anna Contact Form <noreply@vabyanna.com>'',
           to_addrs = [''anna@vabyanna.com''], reply_to = Some ''ann@example.com'',
           subject = ''New Contact Form Submission from Ann Lee''\<rparr>"
  by (simp add: validated_def sample_parse)
     (simp add: sample_form_def validator_eval createEmailContent_def template_field_def)

lemma spam_message: "detectSpam [''message'' \<mapsto> ''Claim your FREE MONEY now'']"
proof -
  have low: "toLowerCase ''Claim your FREE MONEY now'' = ''claim your free money now''"
    by (simp add: toLowerCase_def lower_char_def char_eval)
  show ?thesis
    by (simp add: detectSpam_def low spamKeywords_def)
qed

lemma plain_message: "\<not> detectSpam [''message'' \<mapsto> ''Hello, I would like to book a call please.'']"
proof -
  have low: "toLowerCase ''Hello, I would like to book a call please.'' =
               ''hello, i would like to book a call please.''"
    by (simp add: toLowerCase_def lower_char_def char_eval)
  have up: "toUpperCase ''hello, i would like to book a call please.'' =
               ''HELLO, I WOULD LIKE TO BOOK A CALL PLEASE.''"
    by (simp add: toUpperCase_def upper_char_def char_eval)
  show ?thesis
    by (simp add: detectSpam_def low up spamKeywords_def)
qed

lemma detectSpam_message_only:
  "formData ''message'' = formData' ''message'' \<Longrightarrow> detectSpam formData = detectSpam formData'"
  by (simp add: detectSpam_def)

text \<open>
  C4. A submission that passes validation and is flagged by the spam heuristic is answered
  with status 200 and \<^verbatim>\<open>success: true\<close>; the handler writes one log entry and makes no
  outbound call.
\<close>

theorem spam_accepted_not_delivered:
  assumes "reaches_validation req w" and "validated req w = Some v" and "detectSpam (data v)"
  shows "fst (fetch req w) =
           \<lparr>status = 200, headers = json_headers,
            body = JObj [(''success'', JBool True),
                         (''message'', JStr ''Message received successfully'')]\<rparr> \<and>
         trace (snd (fetch req w)) = trace w @ [LogSubmission ''spam_detected''] \<and>
         email_calls (snd (fetch req w)) = email_calls w"
proof -
  have t: "trace (snd (checkRateLimit req w)) = trace w"
    using checkRateLimit_frame[of req w] by simp
  show ?thesis
    unfolding fetch_post[OF assms(1)] handle_post_validated[OF assms(1,2)]
    using assms(3) t by (simp add: Let_def logSubmission_def email_calls_def)
qed

theorem spam_accepted_not_delivered_witness:
  "reaches_validation (sample_request ''Claim your FREE MONEY now'')
     (sample_world None (Some ''re_key'') (\<lambda>n. Reply True (ResendResult (Some ''id'') None))) \<and>
   (\<exists>v. validated (sample_request ''Claim your FREE MONEY now'')
           (sample_world None (Some ''re_key'') (\<lambda>n. Reply True (ResendResult (Some ''id'') None)))
         = Some v \<and> detectSpam (data v)) \<and>
   status (fst (fetch (sample_request ''Claim your FREE MONEY now'')
     (sample_world None (Some ''re_key'') (\<lambda>n. Reply True (ResendResult (Some ''id'') None))))) = 200 \<and>
   js_get (body (fst (fetch (sample_request ''Claim your FREE MONEY now'')
     (sample_world None (Some ''re_key'') (\<lambda>n. Reply True (ResendResult (Some ''id'') None))))))
     ''success'' = JBool True \<and>
   trace (snd (fetch (sample_request ''Claim your FREE MONEY now'')
     (sample_world None (Some ''re_key'') (\<lambda>n. Reply True (ResendResult (Some ''id'') None))))) =
     [LogSubmission ''spam_detected'']"
proof -
  let ?req = "sample_request ''Claim your FREE MONEY now''"
  let ?w = "sample_world None (Some ''re_key'') (\<lambda>n. Reply True (ResendResult (Some ''id'') None))"
  have h1: "reaches_validation ?req ?w"
    by (rule sample_reaches)
  from sample_validated_spam[of None "Some ''re_key''"] obtain v where
    h2: "validated ?req ?w = Some v" and m: "data v ''message'' = Some ''Claim your FREE MONEY now''"
    by blast
  have h3: "detectSpam (data v)"
    using spam_message detectSpam_message_only[of "data v" "[''message'' \<mapsto> ''Claim your FREE MONEY now'']"] m
    by simp
  from spam_accepted_not_delivered[OF h1 h2 h3] h1 h2 h3 show ?thesis
    by (auto simp: sample_world_def)
qed

text \<open>
  C9. With no provider credential in the environment (unset, or empty), a validated
  submission that is not spam is answered with status 500 and the fixed generic body; the
  handler logs the configuration error and makes no outbound call.
\<close>

theorem missing_credential_is_500:
  assumes "reaches_validation req w" and "validated req w = Some v" and "\<not> detectSpam (data v)"
    and "RESEND_API_KEY w = None \<or> RESEND_API_KEY w = Some []"
  shows "fst (fetch req w) =
           \<lparr>status = 500, headers = json_headers, body = generic_error_body\<rparr> \<and>
         trace (snd (fetch req w)) = trace w @
           [LogError (Error ''Email service not configured'') (Some ''configuration_error''),
            LogError (Error ''Email service not configured'') None] \<and>
         email_calls (snd (fetch req w)) = email_calls w"
proof -
  let ?w1 = "snd (checkRateLimit req w)"
  have t: "trace ?w1 = trace w" and k: "RESEND_API_KEY ?w1 = RESEND_API_KEY w"
    using checkRateLimit_frame[of req w] by simp_all
  have d: "deliver (data v) ?w1 =
             (Inl (Error ''Email service not configured''),
              logError (Error ''Email service not configured'') (Some ''configuration_error'') ?w1)"
    using assms(4) by (auto simp: deliver_def k)
  show ?thesis
    unfolding fetch_post[OF assms(1)] handle_post_validated[OF assms(1,2)]
    using assms(3) t by (simp add: Let_def d logError_def email_calls_def)
qed

theorem missing_credential_is_500_witness:
  "reaches_validation (sample_request ''Hello, I would like to book a call please.'')
     (sample_world None None (\<lambda>n. Reply True (ResendResult (Some ''id'') None))) \<and>
   (\<exists>v. validated (sample_request ''Hello, I would like to book a call please.'')
           (sample_world None None (\<lambda>n. Reply True (ResendResult (Some ''id'') None))) = Some v \<and>
        \<not> detectSpam (data v)) \<and>
   RESEND_API_KEY (sample_world None None (\<lambda>n. Reply True (ResendResult (Some ''id'') None))) = None \<and>
   fst (fetch (sample_request ''Hello, I would like to book a call please.'')
     (sample_world None None (\<lambda>n. Reply True (ResendResult (Some ''id'') None)))) =
     \<lparr>status = 500, headers = json_headers, body = generic_error_body\<rparr> \<and>
   email_calls (snd (fetch (sample_request ''Hello, I would like to book a call please.'')
     (sample_world None None (\<lambda>n. Reply True (ResendResult (Some ''id'') None))))) = 0"
proof -
  let ?req = "sample_request ''Hello, I would like to book a call please.''"
  let ?w = "sample_world None None (\<lambda>n. Reply True (ResendResult (Some ''id'') None))"
  have h1: "reaches_validation ?req ?w"
    by (rule sample_reaches)
  from sample_validated_plain[of None None] obtain v where
    h2: "validated ?req ?w = Some v"
    and m: "data v ''message'' = Some ''Hello, I would like to book a call please.''"
    by blast
  have h3: "\<not> detectSpam (data v)"
    using plain_message
      detectSpam_message_only[of "data v" "[''message'' \<mapsto> ''Hello, I would like to book a call please.'']"] m
    by simp
  have h4: "RESEND_API_KEY ?w = None"
    by (simp add: sample_world_def)
  have h4': "RESEND_API_KEY ?w = None \<or> RESEND_API_KEY ?w = Some []"
    by (simp add: h4)
  have e: "email_calls ?w = 0"
    by (simp add: email_calls_def sample_world_def)
  from missing_credential_is_500[OF h1 h2 h3 h4'] h1 h2 h3 h4 e show ?thesis
    by auto
qed

text \<open>
  What the handler does when the provider fails three times in a row: three outbound
  calls, a wait of 2000 ms after the first and of 4000 ms after the second, then the
  error is logged and the generic 500 is returned.
\<close>

lemma fetch_delivery_fails:
  assumes "reaches_validation req w" and "validated req w = Some v" and "\<not> detectSpam (data v)"
    and "RESEND_API_KEY w = Some apiKey" and "apiKey \<noteq> []"
    and "reply_fails (provider w (email_calls w))"
    and "reply_fails (provider w (email_calls w + 1))"
    and "reply_fails (provider w (email_calls w + 2))"
  shows "\<exists>err. fetch req w =
           (\<lparr>status = 500, headers = json_headers, body = generic_error_body\<rparr>,
            (snd (checkRateLimit req w))
              \<lparr>clock := clock w + 6000,
               trace := trace w @
                 [EmailCall apiKey (createEmailContent (data v)), Sleep 2000,
                  EmailCall apiKey (createEmailContent (data v)), Sleep 4000,
                  EmailCall apiKey (createEmailContent (data v)),
                  LogError err (Some ''email_send_failed''), LogError err None]\<rparr>)"
proof -
  let ?w1 = "snd (checkRateLimit req w)"
  have t: "trace ?w1 = trace w" and k: "RESEND_API_KEY ?w1 = RESEND_API_KEY w"
    and p: "provider ?w1 = provider w" and cl: "clock ?w1 = clock w"
    using checkRateLimit_frame[of req w] by simp_all
  have c: "email_calls ?w1 = email_calls w"
    by (simp add: email_calls_def t)
  from retry_loop_all_fail[of ?w1 "data v" apiKey] assms(6-8)
  obtain err where
    r: "retry_loop (data v) apiKey 0 ?w1 =
          (Inl err,
           ?w1\<lparr>clock := clock ?w1 + 6000,
                trace := trace ?w1 @
                  [EmailCall apiKey (createEmailContent (data v)), Sleep 2000,
                   EmailCall apiKey (createEmailContent (data v)), Sleep 4000,
                   EmailCall apiKey (createEmailContent (data v)),
                   LogError err (Some ''email_send_failed'')]\<rparr>)"
    unfolding p c by blast
  have d: "deliver (data v) ?w1 =
          (Inl err,
           ?w1\<lparr>clock := clock ?w1 + 6000,
                trace := trace ?w1 @
                  [EmailCall apiKey (createEmailContent (data v)), Sleep 2000,
                   EmailCall apiKey (createEmailContent (data v)), Sleep 4000,
                   EmailCall apiKey (createEmailContent (data v)),
                   LogError err (Some ''email_send_failed'')]\<rparr>)"
    using assms(4,5) by (simp add: deliver_def k r)
  show ?thesis
    unfolding fetch_post[OF assms(1)] handle_post_validated[OF assms(1,2)]
    using assms(3) t cl by (intro exI[of _ err]) (simp add: Let_def d logError_def)
qed

lemma sample_delivery_fails:
  "\<exists>err. trace (snd (fetch (sample_request ''Hello, I would like to book a call please.'')
            (sample_world None (Some ''re_key'') (\<lambda>n. FetchThrows)))) =
     [EmailCall ''re_key''
        \<lparr>from_addr = ''VA by Anna Contact Form <noreply@vabyanna.com>'',
         to_addrs = [''anna@vabyanna.com''], reply_to = Some ''ann@example.com'',
         subject = ''New Contact Form Submission from Ann Lee''\<rparr>,
      Sleep 2000,
      EmailCall ''re_key''
        \<lparr>from_addr = ''VA by Anna Contact Form <noreply@vabyanna.com>'',
         to_addrs = [''anna@vabyanna.com''], reply_to = Some ''ann@example.com'',
         subject = ''New Contact Form Submission from Ann Lee''\<rparr>,
      Sleep 4000,
      EmailCall ''re_key''
        \<lparr>from_addr = ''VA by Anna Contact Form <noreply@vabyanna.com>'',
         to_addrs = [''anna@vabyanna.com''], reply_to = Some ''ann@example.com'',
         subject = ''New Contact Form Submission from Ann Lee''\<rparr>,
      LogError err (Some ''email_send_failed''), LogError err None]"
proof -
  let ?req = "sample_request ''Hello, I would like to book a call please.''"
  let ?w = "sample_world None (Some ''re_key'') (\<lambda>n. FetchThrows)"
  have h1: "reaches_validation ?req ?w"
    by (rule sample_reaches)
  from sample_validated_plain[of None "Some ''re_key''"] obtain v where
    h2: "validated ?req ?w = Some v"
    and m: "data v ''message'' = Some ''Hello, I would like to book a call please.''"
    and c: "createEmailContent (data v) =
          \<lparr>from_addr = ''VA by Anna Contact Form <noreply@vabyanna.com>'',
           to_addrs = [''anna@vabyanna.com''], reply_to = Some ''ann@example.com'',
           subject = ''New Contact Form Submission from Ann Lee''\<rparr>"
    by blast
  have h3: "\<not> detectSpam (data v)"
    using plain_message
      detectSpam_message_only[of "data v" "[''message'' \<mapsto> ''Hello, I would like to book a call please.'']"] m
    by simp
  have h4: "RESEND_API_KEY ?w = Some ''re_key''" and h5: "''re_key'' \<noteq> []"
    and f: "reply_fails (provider ?w (email_calls ?w))"
      "reply_fails (provider ?w (email_calls ?w + 1))"
      "reply_fails (provider ?w (email_calls ?w + 2))"
    and t: "trace ?w = []"
    by (simp_all add: sample_world_def)
  from fetch_delivery_fails[OF h1 h2 h3 h4 h5 f] obtain err where
    "trace (snd (fetch ?req ?w)) = trace ?w @
       [EmailCall ''re_key'' (createEmailContent (data v)), Sleep 2000,
        EmailCall ''re_key'' (createEmailContent (data v)), Sleep 4000,
        EmailCall ''re_key'' (createEmailContent (data v)),
        LogError err (Some ''email_send_failed''), LogError err None]"
    by force
  then show ?thesis
    unfolding c t by simp
qed

text \<open>The handler answers that form with the generic 500.\<close>

lemma fetch_missing_fields_numeric_phone:
  "fst (fetch ((sample_request [])\<lparr>json_body := Some (JObj [(''phone'', JNum 5551234567)])\<rparr>)
         (sample_world None k r)) =
     \<lparr>status = 500, headers = json_headers, body = generic_error_body\<rparr>"
proof -
  let ?req = "(sample_request [])\<lparr>json_body := Some (JObj [(''phone'', JNum 5551234567)])\<rparr>"
  let ?w = "sample_world None k r"
  have b: "http_method ?req = ''POST''" "str_includes (url ?req) ''/api/contact''" "\<not> tooLarge ?req"
    by (simp_all add: sample_eval tooLarge_def)
  have c: "checkRateLimit ?req ?w =
           (\<lparr>allowed = True, remaining = Some 4, resetTime = clock ?w + 3600000\<rparr>, ?w)"
    by (rule checkRateLimit_unbound) (simp add: sample_world_def)
  have p: "parseBody ?req = Inr (JObj [(''phone'', JNum 5551234567)])"
    by (simp add: parseBody_def sample_eval header_or_def)
  have v: "validateContactForm (Date_toISOString ?w (clock ?w)) (JObj [(''phone'', JNum 5551234567)])
             = Inl TypeError"
    by (rule validateContactForm_throws) (simp add: throws_on_def)
  have h: "handle_post ?req ?w = (Inl TypeError, ?w)"
    by (simp add: handle_post_def b c p v)
  show ?thesis
    using b h by (simp add: fetch_def generic_error_body_def)
qed

section \<open>Delivery and rate limiting, end to end\<close>

text \<open>
  C1, as amended. When the provider fails on three calls in a row, the handler makes
  exactly three outbound calls, waits 2000 ms between the first and the second and 4000 ms
  between the second and the third (6000 ms in all), logs the last error and answers with
  status 500 and the generic body.
\<close>

theorem delivery_gives_up_after_three:
  assumes "reaches_validation req w" and "validated req w = Some v" and "\<not> detectSpam (data v)"
    and "RESEND_API_KEY w = Some apiKey" and "apiKey \<noteq> []"
    and "reply_fails (provider w (email_calls w))"
    and "reply_fails (provider w (email_calls w + 1))"
    and "reply_fails (provider w (email_calls w + 2))"
  shows "fst (fetch req w) =
           \<lparr>status = 500, headers = json_headers, body = generic_error_body\<rparr> \<and>
         (\<exists>err. trace (snd (fetch req w)) = trace w @
            [EmailCall apiKey (createEmailContent (data v)), Sleep 2000,
             EmailCall apiKey (createEmailContent (data v)), Sleep 4000,
             EmailCall apiKey (createEmailContent (data v)),
             LogError err (Some ''email_send_failed''), LogError err None]) \<and>
         email_calls (snd (fetch req w)) = email_calls w + 3 \<and>
         clock (snd (fetch req w)) = clock w + 6000"
proof -
  from fetch_delivery_fails[OF assms] obtain err where
    f: "fetch req w =
          (\<lparr>status = 500, headers = json_headers, body = generic_error_body\<rparr>,
           (snd (checkRateLimit req w))
             \<lparr>clock := clock w + 6000,
              trace := trace w @
                [EmailCall apiKey (createEmailContent (data v)), Sleep 2000,
                 EmailCall apiKey (createEmailContent (data v)), Sleep 4000,
                 EmailCall apiKey (createEmailContent (data v)),
                 LogError err (Some ''email_send_failed''), LogError err None]\<rparr>)"
    by blast
  have "email_calls (snd (fetch req w)) = email_calls w + 3"
    unfolding f by (simp add: email_calls_def)
  then show ?thesis
    unfolding f by simp
qed

theorem delivery_gives_up_after_three_witness:
  "reaches_validation (sample_request ''Hello, I would like to book a call please.'')
     (sample_world None (Some ''re_key'') (\<lambda>n. Reply False (ResendResult None (Some ''busy'')))) \<and>
   (\<exists>v. validated (sample_request ''Hello, I would like to book a call please.'')
           (sample_world None (Some ''re_key'') (\<lambda>n. Reply False (ResendResult None (Some ''busy''))))
         = Some v \<and> \<not> detectSpam (data v)) \<and>
   RESEND_API_KEY (sample_world None (Some ''re_key'')
     (\<lambda>n. Reply False (ResendResult None (Some ''busy'')))) = Some ''re_key'' \<and>
   reply_fails (Reply False (ResendResult None (Some ''busy''))) \<and>
   status (fst (fetch (sample_request ''Hello, I would like to book a call please.'')
     (sample_world None (Some ''re_key'') (\<lambda>n. Reply False (ResendResult None (Some ''busy'')))))) = 500 \<and>
   email_calls (snd (fetch (sample_request ''Hello, I would like to book a call please.'')
     (sample_world None (Some ''re_key'') (\<lambda>n. Reply False (ResendResult None (Some ''busy'')))))) = 3 \<and>
   List.map_filter sleep_ms (trace (snd (fetch (sample_request ''Hello, I would like to book a call please.'')
     (sample_world None (Some ''re_key'') (\<lambda>n. Reply False (ResendResult None (Some ''busy''))))))) =
     [2000, 4000]"
proof -
  let ?req = "sample_request ''Hello, I would like to book a call please.''"
  let ?w = "sample_world None (Some ''re_key'') (\<lambda>n. Reply False (ResendResult None (Some ''busy'')))"
  have h1: "reaches_validation ?req ?w"
    by (rule sample_reaches)
  from sample_validated_plain[of None "Some ''re_key''"] obtain v where
    h2: "validated ?req ?w = Some v"
    and m: "data v ''message'' = Some ''Hello, I would like to book a call please.''"
    by blast
  have h3: "\<not> detectSpam (data v)"
    using plain_message
      detectSpam_message_only[of "data v" "[''message'' \<mapsto> ''Hello, I would like to book a call please.'']"] m
    by simp
  have h4: "RESEND_API_KEY ?w = Some ''re_key''" and h5: "''re_key'' \<noteq> []"
    and f: "reply_fails (provider ?w (email_calls ?w))"
      "reply_fails (provider ?w (email_calls ?w + 1))"
      "reply_fails (provider ?w (email_calls ?w + 2))"
    and t: "trace ?w = []" and e: "email_calls ?w = 0"
    by (simp_all add: sample_world_def email_calls_def)
  from delivery_gives_up_after_three[OF h1 h2 h3 h4 h5 f]
  have "status (fst (fetch ?req ?w)) = 500"
    and "email_calls (snd (fetch ?req ?w)) = 3"
    and "List.map_filter sleep_ms (trace (snd (fetch ?req ?w))) = [2000, 4000]"
    unfolding t e by (auto simp: List.map_filter_simps)
  with h1 h2 h3 h4 show ?thesis by auto
qed

text \<open>
  C1 as stated fails on the waits: with a provider whose every call throws, the two
  pauses of the handler are 2000 ms and 4000 ms, not 1000 ms and 2000 ms.
\<close>

theorem retry_waits_are_two_and_four_seconds:
  "List.map_filter sleep_ms
     (trace (snd (fetch (sample_request ''Hello, I would like to book a call please.'')
                        (sample_world None (Some ''re_key'') (\<lambda>n. FetchThrows))))) = [2000, 4000] \<and>
   List.map_filter sleep_ms
     (trace (snd (fetch (sample_request ''Hello, I would like to book a call please.'')
                        (sample_world None (Some ''re_key'') (\<lambda>n. FetchThrows))))) \<noteq> [1000, 2000]"
  using sample_delivery_fails by (auto simp: List.map_filter_simps)


lemma parseInt_digit: "parseInt ''3'' = Some 3" "parseInt ''5'' = Some 5"
  by (simp_all add: parseInt_def digit_value_def charCode_def WhiteSpace_def Let_def)


text \<open>
  C2, as amended. When the live counter stored for the client's address reads 5 or more,
  \<^verbatim>\<open>checkRateLimit\<close> answers \<^verbatim>\<open>allowed: false\<close> with 0 remaining, and a POST to the
  contact path is answered with status 429 whose \<^verbatim>\<open>Retry-After\<close> header and
  \<^verbatim>\<open>retryAfter\<close> field are both 3600: one hour from the rejected request.
\<close>

theorem rate_limit_rejects_at_five:
  assumes "RATE_LIMIT_KV w = Some kv" and "\<not> get_throws kv"
    and "kv_lookup kv (clock w) (rateLimitKey req) = Some s"
    and "parseInt s = Some n" and "5 \<le> n"
    and "http_method req = ''POST''" and "str_includes (url req) ''/api/contact''"
    and "\<not> tooLarge req"
  shows "checkRateLimit req w =
           (\<lparr>allowed = False, remaining = Some 0, resetTime = clock w + 3600000\<rparr>, w) \<and>
         fst (fetch req w) =
           \<lparr>status = 429, headers = json_headers @ [(''Retry-After'', ''3600'')],
            body = JObj [(''success'', JBool False),
                         (''message'', JStr ''Too many requests. Please try again later.''),
                         (''retryAfter'', JNum 3600)]\<rparr>"
  using checkRateLimit_blocked[OF assms(1-5)] fetch_blocked[OF assms] by simp

theorem rate_limit_rejects_at_five_witness:
  "RATE_LIMIT_KV (sample_world (Some (sample_store ''5'' False False)) None (\<lambda>n. FetchThrows)) =
     Some (sample_store ''5'' False False) \<and>
   \<not> get_throws (sample_store ''5'' False False) \<and>
   kv_lookup (sample_store ''5'' False False) 1800000 ''rate_limit:203.0.113.9'' = Some ''5'' \<and>
   parseInt ''5'' = Some 5 \<and>
   fst (checkRateLimit (sample_request ''Hello'')
         (sample_world (Some (sample_store ''5'' False False)) None (\<lambda>n. FetchThrows))) =
     \<lparr>allowed = False, remaining = Some 0, resetTime = 5400000\<rparr> \<and>
   status (fst (fetch (sample_request ''Hello'')
         (sample_world (Some (sample_store ''5'' False False)) None (\<lambda>n. FetchThrows)))) = 429"
proof -
  let ?kv = "sample_store ''5'' False False"
  let ?w = "sample_world (Some ?kv) None (\<lambda>n. FetchThrows)"
  let ?req = "sample_request ''Hello''"
  have h1: "RATE_LIMIT_KV ?w = Some ?kv" and cl: "clock ?w = 1800000"
    by (simp_all add: sample_world_def)
  have h2: "\<not> get_throws ?kv"
    by (simp add: sample_store_def)
  have l: "kv_lookup ?kv 1800000 ''rate_limit:203.0.113.9'' = Some ''5''"
    by (simp add: kv_lookup_def sample_store_def)
  have h3: "kv_lookup ?kv (clock ?w) (rateLimitKey ?req) = Some ''5''"
    by (simp add: cl sample_request_basics l)
  have h4: "parseInt ''5'' = Some 5" and h5: "(5::int) \<le> 5"
    by (simp_all add: parseInt_digit)
  from rate_limit_rejects_at_five[OF h1 h2 h3 h4 h5 sample_request_basics(1-3)] h1 h2 l h4
  show ?thesis
    by (simp add: cl)
qed

text \<open>
  C2 as stated fails on the header: the counter below expires 1800 seconds after the
  request, and the handler still reports 3600.
\<close>

theorem retry_after_ignores_window:
  "map_of (headers (fst (fetch (sample_request ''Hello'')
       (sample_world (Some (sample_store ''5'' False False)) None (\<lambda>n. FetchThrows)))))
     ''Retry-After'' = Some ''3600'' \<and>
   js_get (body (fst (fetch (sample_request ''Hello'')
       (sample_world (Some (sample_store ''5'' False False)) None (\<lambda>n. FetchThrows)))))
     ''retryAfter'' = JNum 3600 \<and>
   clock (sample_world (Some (sample_store ''5'' False False)) None (\<lambda>n. FetchThrows)) = 1800000 \<and>
   seconds_until_expiry (sample_store ''5'' False False) 1800000 ''rate_limit:203.0.113.9'' = 1800"
proof -
  let ?kv = "sample_store ''5'' False False"
  let ?w = "sample_world (Some ?kv) None (\<lambda>n. FetchThrows)"
  let ?req = "sample_request ''Hello''"
  have h1: "RATE_LIMIT_KV ?w = Some ?kv" and cl: "clock ?w = 1800000"
    by (simp_all add: sample_world_def)
  have h2: "\<not> get_throws ?kv"
    by (simp add: sample_store_def)
  have l: "kv_lookup ?kv 1800000 ''rate_limit:203.0.113.9'' = Some ''5''"
    by (simp add: kv_lookup_def sample_store_def)
  have h3: "kv_lookup ?kv (clock ?w) (rateLimitKey ?req) = Some ''5''"
    by (simp add: cl sample_request_basics l)
  have h4: "parseInt ''5'' = Some 5" and h5: "(5::int) \<le> 5"
    by (simp_all add: parseInt_digit)
  have s: "seconds_until_expiry ?kv 1800000 ''rate_limit:203.0.113.9'' = 1800"
    by (simp add: seconds_until_expiry_def sample_store_def ceil_div1000_def)
  from fetch_blocked[OF h1 h2 h3 h4 h5 sample_request_basics(1-3)] s cl show ?thesis
    by (simp add: json_headers_def)
qed

section \<open>Counting requests\<close>

text \<open>What the limiter writes, it reads back as the same number.\<close>

lemma dec_digit_char_of: "(d::nat) < 10 \<Longrightarrow> dec_digit (char_of (48 + d))"
  by (simp add: dec_digit_def take_bit_eq_mod)

lemma digit_value_char_of: "(d::nat) < 10 \<Longrightarrow> digit_value (char_of (48 + d)) = d"
  by (simp add: digit_value_def charCode_def take_bit_eq_mod)

lemma digits_dec: "list_all dec_digit (digits n) \<and> digits n \<noteq> []"
proof (induction n rule: digits.induct)
  case (1 n)
  show ?case
  proof (cases "n < 10")
    case True
    then show ?thesis by (subst digits.simps, subst digits.simps) (simp add: dec_digit_char_of)
  next
    case False
    with 1 have "list_all dec_digit (digits (n div 10))" by simp
    moreover have "dec_digit (char_of (48 + n mod 10))" by (simp add: dec_digit_char_of)
    ultimately show ?thesis using False
      by (subst digits.simps, subst digits.simps) simp
  qed
qed

lemma digits_value: "foldl (\<lambda>a c. a * 10 + digit_value c) 0 (digits n) = n"
proof (induction n rule: digits.induct)
  case (1 n)
  show ?case
  proof (cases "n < 10")
    case True
    then show ?thesis by (subst digits.simps) (simp add: digit_value_char_of)
  next
    case False
    with 1 have "foldl (\<lambda>a c. a * 10 + digit_value c) 0 (digits (n div 10)) = n div 10" by simp
    then show ?thesis using False
      by (subst digits.simps) (simp add: digit_value_char_of)
  qed
qed

lemma dec_digit_facts:
  assumes "dec_digit c"
  shows "\<not> WhiteSpace c" "c \<noteq> CHR ''-''" "c \<noteq> CHR ''+''" "c \<noteq> CHR ''x''" "c \<noteq> CHR ''X''"
    "digit_value c < 10"
  using assms by (auto simp: dec_digit_def WhiteSpace_def digit_value_def charCode_def)

lemma parseInt_dec:
  assumes "list_all dec_digit s" and "s \<noteq> []"
  shows "parseInt s = Some (int (foldl (\<lambda>a c. a * 10 + digit_value c) 0 s))"
proof -
  from assms obtain c cs where s: "s = c # cs" and c: "dec_digit c" and cs: "list_all dec_digit cs"
    by (cases s) auto
  have tw: "takeWhile (\<lambda>c. digit_value c < 10) s = s"
    using assms(1) by (induction s) (auto simp: dec_digit_facts)
  have nohex: "take 2 s \<noteq> ''0x''" "take 2 s \<noteq> ''0X''"
    using cs dec_digit_facts(4,5) by (cases cs; auto simp: s)+
  have nosign: "take 1 s \<noteq> ''-''" "take 1 s \<noteq> ''+''"
    using dec_digit_facts(2,3)[OF c] by (auto simp: s)
  have dw: "dropWhile WhiteSpace s = s"
    using dec_digit_facts(1)[OF c] by (simp add: s)
  show ?thesis
    unfolding parseInt_def Let_def dw using nohex nosign assms(2) by (simp add: tw)
qed

lemma parseInt_number_toString:
  "parseInt (number_toString (Some (int n))) = Some (int n)"
  using parseInt_dec[of "digits n"] digits_dec[of n] digits_value[of n]
  by (simp add: number_toString_def)

text \<open>
  From a store with no live counter for the address, five checks in a row are allowed,
  with 4, 3, 2, 1 and 0 remaining, and the sixth is rejected.
\<close>

lemma checkRateLimit_counts:
  assumes "RATE_LIMIT_KV w = Some kv" and "\<not> get_throws kv" and "\<not> put_throws kv"
    and "count_of (kv_lookup kv (clock w) (rateLimitKey req)) = Some n" and "n < 5"
  shows "fst (checkRateLimit req w) =
           \<lparr>allowed = True, remaining = Some (4 - n), resetTime = clock w + 3600000\<rparr> \<and>
         clock (snd (checkRateLimit req w)) = clock w \<and>
         (\<exists>kv'. RATE_LIMIT_KV (snd (checkRateLimit req w)) = Some kv' \<and>
                \<not> get_throws kv' \<and> \<not> put_throws kv' \<and>
                entries kv' (rateLimitKey req) =
                  Some (number_toString (Some (n + 1)), clock w + 3600000))"
  using assms
  by (simp add: checkRateLimit_def Let_def kv_get_def kv_put_def limit_reached_def maxRequests_def)

lemma count_of_stored:
  assumes "entries kv key = Some (number_toString (Some (int k)), t + 3600000)"
  shows "count_of (kv_lookup kv t key) = Some (int k)"
  using assms parseInt_number_toString[of k]
    parseInt_Some_nonempty[of "number_toString (Some (int k))" "int k"]
  by (simp add: count_of_def kv_lookup_def)

lemma repeat_check_counts:
  assumes "RATE_LIMIT_KV w = Some kv" and "\<not> get_throws kv" and "\<not> put_throws kv"
    and "kv_lookup kv (clock w) (rateLimitKey req) = None" and "k < 5"
  shows "fst (checkRateLimit req (repeat_check k req w)) =
           \<lparr>allowed = True, remaining = Some (4 - int k), resetTime = clock w + 3600000\<rparr> \<and>
         clock (repeat_check (Suc k) req w) = clock w \<and>
         (\<exists>kv'. RATE_LIMIT_KV (repeat_check (Suc k) req w) = Some kv' \<and>
                \<not> get_throws kv' \<and> \<not> put_throws kv' \<and>
                entries kv' (rateLimitKey req) =
                  Some (number_toString (Some (int (Suc k))), clock w + 3600000))"
  using assms(5)
proof (induction k)
  case 0
  have "count_of (kv_lookup kv (clock w) (rateLimitKey req)) = Some 0"
    by (simp add: assms(4) count_of_def)
  from checkRateLimit_counts[OF assms(1-3) this] show ?case by (simp add: repeat_check.simps)
next
  case (Suc k)
  let ?w = "repeat_check (Suc k) req w"
  from Suc obtain kv' where c: "clock ?w = clock w"
    and 1: "RATE_LIMIT_KV ?w = Some kv'" and 2: "\<not> get_throws kv'" and 3: "\<not> put_throws kv'"
    and e: "entries kv' (rateLimitKey req) =
              Some (number_toString (Some (int (Suc k))), clock w + 3600000)"
    by auto
  have 4: "count_of (kv_lookup kv' (clock ?w) (rateLimitKey req)) = Some (int (Suc k))"
    unfolding c by (rule count_of_stored[OF e])
  have 5: "int (Suc k) < 5" using Suc.prems by simp
  from checkRateLimit_counts[OF 1 2 3 4 5] show ?case
    unfolding repeat_check.simps(2)[of "Suc k"] c by (simp add: algebra_simps)
qed

lemma sixth_request_rejected:
  assumes "RATE_LIMIT_KV w = Some kv" and "\<not> get_throws kv" and "\<not> put_throws kv"
    and "kv_lookup kv (clock w) (rateLimitKey req) = None"
  shows "fst (checkRateLimit req (repeat_check (Suc (Suc (Suc (Suc (Suc 0))))) req w)) =
           \<lparr>allowed = False, remaining = Some 0, resetTime = clock w + 3600000\<rparr>"
proof -
  let ?w = "repeat_check (Suc (Suc (Suc (Suc (Suc 0))))) req w"
  have k: "Suc (Suc (Suc (Suc 0))) < 5" by simp
  from repeat_check_counts[OF assms k] obtain kv' where c: "clock ?w = clock w"
    and 1: "RATE_LIMIT_KV ?w = Some kv'" and 2: "\<not> get_throws kv'"
    and e: "entries kv' (rateLimitKey req) =
              Some (number_toString (Some (int (Suc (Suc (Suc (Suc (Suc 0))))))), clock w + 3600000)"
    by blast
  have l: "kv_lookup kv' (clock ?w) (rateLimitKey req) =
             Some (number_toString (Some (int (Suc (Suc (Suc (Suc (Suc 0))))))))"
    unfolding c by (simp add: kv_lookup_def e)
  have p: "parseInt (number_toString (Some (int (Suc (Suc (Suc (Suc (Suc 0)))))))) =
             Some (int (Suc (Suc (Suc (Suc (Suc 0))))))"
    by (rule parseInt_number_toString)
  have "(5::int) \<le> int (Suc (Suc (Suc (Suc (Suc 0)))))" by simp
  from checkRateLimit_blocked[OF 1 2 l p this] show ?thesis
    unfolding c by simp
qed

section \<open>A provider that recovers\<close>

lemma retry_loop_third_succeeds:
  assumes f0: "reply_fails (provider w (email_calls w))"
    and f1: "reply_fails (provider w (email_calls w + 1))"
    and f2: "provider w (email_calls w + 2) = Reply True result"
  shows "retry_loop formData apiKey 0 w =
           (Inr (Some result),
            w\<lparr>clock := clock w + 6000,
              trace := trace w @
                [EmailCall apiKey (createEmailContent formData), Sleep 2000,
                 EmailCall apiKey (createEmailContent formData), Sleep 4000,
                 EmailCall apiKey (createEmailContent formData)]\<rparr>)"
proof -
  let ?e = "EmailCall apiKey (createEmailContent formData)"
  let ?w1 = "w\<lparr>trace := trace w @ [?e]\<rparr>"
  let ?w2 = "setTimeout 2000 ?w1"
  let ?w3 = "?w2\<lparr>trace := trace ?w2 @ [?e]\<rparr>"
  let ?w4 = "setTimeout 4000 ?w3"
  let ?w5 = "?w4\<lparr>trace := trace ?w4 @ [?e]\<rparr>"
  from send_fails[OF f0, of formData apiKey] obtain e0 where
    s0: "sendContactFormEmail formData apiKey w = (Inl e0, ?w1)" by blast
  have "reply_fails (provider ?w2 (email_calls ?w2))"
    using f1 by (simp add: setTimeout_def email_calls_def)
  from send_fails[OF this, of formData apiKey] obtain e1 where
    s1: "sendContactFormEmail formData apiKey ?w2 = (Inl e1, ?w3)" by blast
  have "provider ?w4 (email_calls ?w4) = Reply True result"
    using f2 by (simp add: setTimeout_def email_calls_def)
  from send_succeeds[OF this, of formData apiKey]
  have s2: "sendContactFormEmail formData apiKey ?w4 = (Inr result, ?w5)" .
  have r2: "retry_loop formData apiKey (Suc (Suc 0)) ?w4 = (Inr (Some result), ?w5)"
    by (subst retry_loop.simps) (simp add: s2 maxRetries_def)
  have r1: "retry_loop formData apiKey (Suc 0) ?w2 = (Inr (Some result), ?w5)"
    by (subst retry_loop.simps) (simp add: s1 maxRetries_def r2)
  have r0: "retry_loop formData apiKey 0 w = (Inr (Some result), ?w5)"
    by (subst retry_loop.simps) (simp add: s0 maxRetries_def r1)
  show ?thesis
    unfolding r0 by (simp add: setTimeout_def)
qed

lemma fetch_third_attempt_succeeds:
  assumes "reaches_validation req w" and "validated req w = Some v" and "\<not> detectSpam (data v)"
    and "RESEND_API_KEY w = Some apiKey" and "apiKey \<noteq> []"
    and "reply_fails (provider w (email_calls w))"
    and "reply_fails (provider w (email_calls w + 1))"
    and "provider w (email_calls w + 2) = Reply True result"
  shows "fst (fetch req w) =
           \<lparr>status = 200, headers = json_headers,
            body = JObj [(''success'', JBool True),
                         (''message'', JStr ''Message sent successfully'')]\<rparr> \<and>
         trace (snd (fetch req w)) = trace w @
           [EmailCall apiKey (createEmailContent (data v)), Sleep 2000,
            EmailCall apiKey (createEmailContent (data v)), Sleep 4000,
            EmailCall apiKey (createEmailContent (data v)), LogSubmission ''success'']"
proof -
  let ?w1 = "snd (checkRateLimit req w)"
  have t: "trace ?w1 = trace w" and k: "RESEND_API_KEY ?w1 = RESEND_API_KEY w"
    and p: "provider ?w1 = provider w"
    using checkRateLimit_frame[of req w] by simp_all
  have c: "email_calls ?w1 = email_calls w"
    by (simp add: email_calls_def t)
  have d: "deliver (data v) ?w1 =
          (Inr \<lparr>status = 200, headers = json_headers,
                body = JObj [(''success'', JBool True),
                             (''message'', JStr ''Message sent successfully'')]\<rparr>,
           logSubmission ''success''
             (?w1\<lparr>clock := clock ?w1 + 6000,
                  trace := trace ?w1 @
                    [EmailCall apiKey (createEmailContent (data v)), Sleep 2000,
                     EmailCall apiKey (createEmailContent (data v)), Sleep 4000,
                     EmailCall apiKey (createEmailContent (data v))]\<rparr>))"
    using assms(4,5) retry_loop_third_succeeds[of ?w1 result "data v" apiKey] assms(6-8)
    by (simp add: deliver_def k p c)
  show ?thesis
    unfolding fetch_post[OF assms(1)] handle_post_validated[OF assms(1,2)]
    using assms(3) t by (simp add: Let_def d logSubmission_def)
qed

end
